theory Spec2Isabelle
  imports Complex_Main "HOL-Library.Log_Nat"
begin

section \<open>The trip planner service (src/services/tripPlannerService.js)\<close>

text \<open>
  The service is one JavaScript class of pure computations over static lookup tables and
  \<^verbatim>\<open>Math.random()\<close>. The embedding makes explicit what JavaScript leaves implicit:
  \<^item> a JavaScript number is an IEEE 754 double. A finite double is the real number it
    stands for, \<open>NaN\<close> is a value of its own (type \<open>jsnum\<close>), and every addition,
    subtraction and multiplication of the source rounds its exact result to the nearest
    double (function \<open>fl\<close>). A decimal literal of the source stands for the nearest
    double too: the tables and the helper functions keep the literals as they are written,
    and \<open>fl\<close> is applied where the program computes or compares with them;
  \<^item> every call of \<^verbatim>\<open>Math.random()\<close> is a draw from a sequence \<open>rnd :: nat \<Rightarrow> real\<close>
    given to the function, numbered in the order the source makes the calls; the contract
    of \<^verbatim>\<open>Math.random()\<close> is that \<open>rnd i\<close> is a double with \<open>0 \<le> rnd i < 1\<close>,
    uniformly distributed;
  \<^item> a string is a list of characters with code points below 256: the character with code
    \<open>n\<close> is the Unicode character of that code point (ISO 8859-1);
  \<^item> a table is an object literal, so a lookup \<^verbatim>\<open>table[key]\<close> that misses the literal's
    own keys continues along the prototype chain and finds the members of
    \<^verbatim>\<open>Object.prototype\<close> (type \<open>jsval\<close>, function \<open>js_get\<close>);
  \<^item> a \<^verbatim>\<open>TypeError\<close> raised by the source is a value \<open>Inl TypeError\<close>;
  \<^item> \<^verbatim>\<open>async\<close>, the artificial delays and the logging are left out: they do not change
    the value returned.
\<close>

subsection \<open>Doubles\<close>

text \<open>\<open>pow2 e\<close> is the power of two of the integer exponent \<open>e\<close>.\<close>

definition pow2 :: "int \<Rightarrow> real" where
  "pow2 e = (if 0 \<le> e then 2 ^ nat e else 1 / 2 ^ nat (- e))"

text \<open>The exponent \<open>e\<close> with \<open>pow2 e \<le> x < pow2 (e + 1)\<close>, for a positive \<open>x\<close>.\<close>

definition binade :: "real \<Rightarrow> int" where
  "binade x = (if 1 \<le> x then bitlen \<lfloor>x\<rfloor> - 1 else - bitlen (\<lceil>1 / x\<rceil> - 1))"

text \<open>The nearest integer, a tie going to the even one.\<close>

definition rne :: "real \<Rightarrow> int" where
  "rne t =
     (let n = \<lfloor>t\<rfloor>; f = t - of_int n
      in if f < 1 / 2 then n else if 1 / 2 < f then n + 1 else if even n then n else n + 1)"

text \<open>
  The double nearest to the real \<open>x\<close>, a tie going to the even significand (the rounding
  of IEEE 754 binary64): 53 significant bits, and the fixed spacing \<open>pow2 (- 1074)\<close> below
  \<open>pow2 (- 1022)\<close>. It is the double the hardware returns as long as the magnitude stays
  below \<open>pow2 1024\<close>, which every number of this program does by far.
\<close>

definition fl :: "real \<Rightarrow> real" where
  "fl x =
     (if x = 0 then 0
      else let u = pow2 (max (binade \<bar>x\<bar>) (- 1022) - 52) in of_int (rne (x / u)) * u)"

text \<open>The spacing of the doubles around \<open>x\<close>.\<close>

definition ulp_of :: "real \<Rightarrow> real" where
  "ulp_of x = pow2 (max (binade \<bar>x\<bar>) (- 1022) - 52)"

subsection \<open>JavaScript values\<close>

text \<open>A number: \<open>Num x\<close> for the double \<open>x\<close>, or \<^verbatim>\<open>NaN\<close>.\<close>

datatype jsnum = Num real | NaN

text \<open>
  The result of a property lookup: \<open>Val x\<close> is the value of an own property of the object
  literal, \<open>Inherited\<close> is a member of \<^verbatim>\<open>Object.prototype\<close> found along the prototype
  chain (a built-in function, or \<^verbatim>\<open>Object.prototype\<close> itself for \<^verbatim>\<open>__proto__\<close>), and
  \<open>Undefined\<close> is \<^verbatim>\<open>undefined\<close>.
\<close>

datatype 'a jsval = Val 'a | Inherited | Undefined

datatype js_error = TypeError

text \<open>The property names every object literal inherits from \<^verbatim>\<open>Object.prototype\<close>.\<close>

definition object_prototype_keys :: "string list" where
  "object_prototype_keys =
     [''constructor'', ''__proto__'', ''hasOwnProperty'', ''isPrototypeOf'',
      ''propertyIsEnumerable'', ''toLocaleString'', ''toString'', ''valueOf'',
      ''__defineGetter__'', ''__defineSetter__'', ''__lookupGetter__'', ''__lookupSetter__'']"

text \<open>\<^verbatim>\<open>table[key]\<close> on an object literal given as the list of its own properties.\<close>

definition js_get :: "(string \<times> 'a) list \<Rightarrow> string \<Rightarrow> 'a jsval" where
  "js_get tbl k =
     (case map_of tbl k of
        Some v \<Rightarrow> Val v
      | None \<Rightarrow> if k \<in> set object_prototype_keys then Inherited else Undefined)"

text \<open>
  \<^verbatim>\<open>a || b\<close> where the own values are numbers: \<open>0\<close> and \<^verbatim>\<open>undefined\<close> are falsy, a
  built-in function or object is truthy and is the result.
\<close>

fun num_or :: "real jsval \<Rightarrow> real jsval \<Rightarrow> real jsval" where
  "num_or (Val x) d = (if x = 0 then d else Val x)"
| "num_or Inherited d = Inherited"
| "num_or Undefined d = d"

text \<open>\<^verbatim>\<open>a || b\<close> where the own values are objects or arrays, which are all truthy.\<close>

fun obj_or :: "'a jsval \<Rightarrow> 'a jsval \<Rightarrow> 'a jsval" where
  "obj_or (Val x) d = Val x"
| "obj_or Inherited d = Inherited"
| "obj_or Undefined d = d"

text \<open>
  The number a value stands for in an arithmetic expression (\<^verbatim>\<open>ToNumber\<close>): the double of
  the literal the table holds; a built-in function or object converts through its string
  form to \<^verbatim>\<open>NaN\<close>, as \<^verbatim>\<open>undefined\<close> does.
\<close>

fun to_number :: "real jsval \<Rightarrow> jsnum" where
  "to_number (Val x) = Num (fl x)"
| "to_number Inherited = NaN"
| "to_number Undefined = NaN"

text \<open>\<^verbatim>\<open>a * b\<close>, \<^verbatim>\<open>a + b\<close> and \<^verbatim>\<open>a - b\<close> on doubles: the exact result, rounded.\<close>

fun js_times :: "jsnum \<Rightarrow> jsnum \<Rightarrow> jsnum" where
  "js_times (Num x) (Num y) = Num (fl (x * y))"
| "js_times _ _ = NaN"

fun js_plus :: "jsnum \<Rightarrow> jsnum \<Rightarrow> jsnum" where
  "js_plus (Num x) (Num y) = Num (fl (x + y))"
| "js_plus _ _ = NaN"

fun js_minus :: "jsnum \<Rightarrow> jsnum \<Rightarrow> jsnum" where
  "js_minus (Num x) (Num y) = Num (fl (x - y))"
| "js_minus _ _ = NaN"

text \<open>\<^verbatim>\<open>a < b\<close> and \<^verbatim>\<open>a > b\<close>: every comparison with \<^verbatim>\<open>NaN\<close> is false.\<close>

fun js_less :: "jsnum \<Rightarrow> jsnum \<Rightarrow> bool" where
  "js_less (Num x) (Num y) = (x < y)"
| "js_less _ _ = False"

definition js_greater :: "jsnum \<Rightarrow> jsnum \<Rightarrow> bool" where
  "js_greater a b = js_less b a"

text \<open>
  \<^verbatim>\<open>Math.round\<close>: the integer nearest to the double, a tie going up, with no rounding
  error of its own; \<^verbatim>\<open>Math.round(NaN)\<close> is \<^verbatim>\<open>NaN\<close>.
\<close>

definition round_half_up :: "real \<Rightarrow> int" where
  "round_half_up x = \<lfloor>x + 1 / 2\<rfloor>"

fun math_round :: "jsnum \<Rightarrow> jsnum" where
  "math_round (Num x) = Num (of_int (round_half_up x))"
| "math_round NaN = NaN"

text \<open>The sequence of draws after the first \<open>n\<close> have been used.\<close>

definition drop_draws :: "nat \<Rightarrow> (nat \<Rightarrow> real) \<Rightarrow> nat \<Rightarrow> real" where
  "drop_draws n rnd i = rnd (i + n)"

text \<open>The sequence whose every draw is \<open>r\<close>.\<close>

definition const_draws :: "real \<Rightarrow> nat \<Rightarrow> real" where
  "const_draws r i = r"

subsection \<open>getExchangeRates\<close>

type_synonym rate_table = "(string \<times> real) list"

definition mockRates :: "(string \<times> rate_table) list" where
  "mockRates =
     [(''USD'', [(''EUR'', 0.85), (''GBP'', 0.73), (''INR'', 83.12), (''JPY'', 149.50)]),
      (''EUR'', [(''USD'', 1.18), (''GBP'', 0.86), (''INR'', 97.89), (''JPY'', 176.19)]),
      (''GBP'', [(''USD'', 1.37), (''EUR'', 1.16), (''INR'', 113.87), (''JPY'', 204.93)]),
      (''INR'', [(''USD'', 0.012), (''EUR'', 0.010), (''GBP'', 0.0088), (''JPY'', 1.80)])]"

text \<open>
  The body of the \<^verbatim>\<open>try\<close> block. The argument is \<open>None\<close> when the caller passes none, and
  the parameter's default \<^verbatim>\<open>'USD'\<close> applies. No step of the block can raise.
\<close>

definition getExchangeRates_try :: "string option \<Rightarrow> js_error + rate_table jsval" where
  "getExchangeRates_try baseCurrency =
     (let base = (case baseCurrency of None \<Rightarrow> ''USD'' | Some b \<Rightarrow> b) in
      Inr (obj_or (js_get mockRates base) (js_get mockRates ''USD'')))"

text \<open>The \<^verbatim>\<open>catch\<close> block returns the fallback table.\<close>

definition getExchangeRates :: "string option \<Rightarrow> rate_table jsval" where
  "getExchangeRates baseCurrency =
     (case getExchangeRates_try baseCurrency of
        Inr rates \<Rightarrow> rates
      | Inl e \<Rightarrow> Val [(''USD'', 1)])"

subsection \<open>Strings\<close>

text \<open>
  \<^verbatim>\<open>toLowerCase\<close> on the characters below U+0100: the letters \<open>A\<close> to \<open>Z\<close> and the
  letters U+00C0 to U+00DE (but the sign U+00D7) have a lowercase, 32 code points further.
\<close>

definition upper_chars :: string where
  "upper_chars =
     ''ABCDEFGHIJKLMNOPQRSTUVWXYZ'' @
     [CHR 0xC0, CHR 0xC1, CHR 0xC2, CHR 0xC3, CHR 0xC4, CHR 0xC5, CHR 0xC6, CHR 0xC7,
      CHR 0xC8, CHR 0xC9, CHR 0xCA, CHR 0xCB, CHR 0xCC, CHR 0xCD, CHR 0xCE, CHR 0xCF,
      CHR 0xD0, CHR 0xD1, CHR 0xD2, CHR 0xD3, CHR 0xD4, CHR 0xD5, CHR 0xD6,
      CHR 0xD8, CHR 0xD9, CHR 0xDA, CHR 0xDB, CHR 0xDC, CHR 0xDD, CHR 0xDE]"

definition lower_chars :: string where
  "lower_chars =
     ''abcdefghijklmnopqrstuvwxyz'' @
     [CHR 0xE0, CHR 0xE1, CHR 0xE2, CHR 0xE3, CHR 0xE4, CHR 0xE5, CHR 0xE6, CHR 0xE7,
      CHR 0xE8, CHR 0xE9, CHR 0xEA, CHR 0xEB, CHR 0xEC, CHR 0xED, CHR 0xEE, CHR 0xEF,
      CHR 0xF0, CHR 0xF1, CHR 0xF2, CHR 0xF3, CHR 0xF4, CHR 0xF5, CHR 0xF6,
      CHR 0xF8, CHR 0xF9, CHR 0xFA, CHR 0xFB, CHR 0xFC, CHR 0xFD, CHR 0xFE]"

definition lower_char :: "char \<Rightarrow> char" where
  "lower_char c =
     (case map_of (zip upper_chars lower_chars) c of
        Some l \<Rightarrow> l
      | None \<Rightarrow> c)"

definition toLowerCase :: "string \<Rightarrow> string" where
  "toLowerCase s = map lower_char s"

text \<open>
  \<^verbatim>\<open>trim\<close> removes the white space and the line terminators at both ends; below U+0100
  these are U+0009 to U+000D, the space U+0020 and the no-break space U+00A0.
\<close>

definition is_space :: "char \<Rightarrow> bool" where
  "is_space c =
     (c \<in> set [CHR 0x09, CHR 0x0A, CHR 0x0B, CHR 0x0C, CHR 0x0D, CHR 0x20, CHR 0xA0])"

definition trim :: "string \<Rightarrow> string" where
  "trim s = rev (dropWhile is_space (rev (dropWhile is_space s)))"

text \<open>\<^verbatim>\<open>xs[i]\<close> on an array: \<^verbatim>\<open>undefined\<close> outside the array.\<close>

definition js_index :: "'a list \<Rightarrow> int \<Rightarrow> 'a jsval" where
  "js_index xs i = (if 0 \<le> i \<and> i < int (length xs) then Val (xs ! nat i) else Undefined)"

text \<open>\<^verbatim>\<open>xs.slice(0, e)\<close>: a negative end counts from the end of the array.\<close>

definition slice0 :: "'a list \<Rightarrow> int \<Rightarrow> 'a list" where
  "slice0 xs e =
     (let len = int (length xs);
          k = (if e < 0 then max (len + e) 0 else min e len)
      in take (nat k) xs)"

subsection \<open>getSeasonalMultiplier and getDestinationMultiplier\<close>

text \<open>
  \<^verbatim>\<open>Array.prototype.includes\<close> finds no element equal to \<^verbatim>\<open>NaN\<close> in an array of
  integers, so the month of an invalid date is off-peak.
\<close>

definition peakMonths :: "jsnum list" where
  "peakMonths = [Num 5, Num 6, Num 7, Num 8, Num 11]"

definition getSeasonalMultiplier :: "jsnum \<Rightarrow> real" where
  "getSeasonalMultiplier month = (if month \<in> set peakMonths then 1.3 else 0.9)"

definition multipliers :: "(string \<times> real) list" where
  "multipliers =
     [(''Tokyo'', 1.4), (''Paris'', 1.3), (''London'', 1.2), (''Dubai'', 1.1),
      (''New York'', 1.2), (''Mumbai'', 0.6), (''Delhi'', 0.5), (''Bangkok'', 0.7),
      (''Singapore'', 1.1)]"

definition getDestinationMultiplier :: "string \<Rightarrow> real jsval" where
  "getDestinationMultiplier destination = num_or (js_get multipliers destination) (Val 1.0)"

subsection \<open>mockHotelAPI\<close>

record hotel_type =
  tier_name :: string
  tier_rating :: real
  tier_amenities :: "string list"
  basePrice :: real

definition hotelTypes :: "(string \<times> hotel_type) list" where
  "hotelTypes =
     [(''budget'',
         \<lparr>tier_name = ''Budget Inn'', tier_rating = 2.5,
          tier_amenities = [''WiFi'', ''Breakfast''], basePrice = 60\<rparr>),
      (''standard'',
         \<lparr>tier_name = ''Comfort Hotel'', tier_rating = 4.0,
          tier_amenities = [''WiFi'', ''Pool'', ''Gym'', ''Restaurant''], basePrice = 120\<rparr>),
      (''luxury'',
         \<lparr>tier_name = ''Grand Resort'', tier_rating = 4.8,
          tier_amenities = [''WiFi'', ''Spa'', ''Pool'', ''Concierge'', ''Fine Dining''],
          basePrice = 280\<rparr>)]"

text \<open>\<^verbatim>\<open>hotelTypes[roomType] || hotelTypes['standard']\<close>.\<close>

definition hotelFor :: "string \<Rightarrow> hotel_type jsval" where
  "hotelFor roomType = obj_or (js_get hotelTypes roomType) (js_get hotelTypes ''standard'')"

text \<open>\<^verbatim>\<open>Math.random() * 0.3 - 0.15\<close>, from the draw \<open>r\<close>.\<close>

definition hotelVariation :: "real \<Rightarrow> real" where
  "hotelVariation r = fl (fl (r * fl 0.3) - fl 0.15)"

record hotel_quote =
  pricePerNight :: jsnum
  hotelName :: string
  rating :: real
  amenities :: "string list"
  hotel_availability :: bool
  cancellation :: bool
  breakfast :: bool
  wifi :: bool
  location :: string

text \<open>
  Draw 0 is the variation, draw 1 the availability. When \<^verbatim>\<open>roomType\<close> names a member of
  \<^verbatim>\<open>Object.prototype\<close>, \<^verbatim>\<open>hotel\<close> is that built-in, \<^verbatim>\<open>hotel.amenities\<close> is \<^verbatim>\<open>undefined\<close>
  and \<^verbatim>\<open>hotel.amenities.includes\<close> raises a \<^verbatim>\<open>TypeError\<close>.
\<close>

definition mockHotelAPI ::
  "string \<Rightarrow> string \<Rightarrow> string \<Rightarrow> int \<Rightarrow> string \<Rightarrow> (nat \<Rightarrow> real) \<Rightarrow> js_error + hotel_quote" where
  "mockHotelAPI destination checkIn checkOut guests roomType rnd =
     (let hotel = hotelFor roomType;
          variation = hotelVariation (rnd 0);
          destinationMultiplier = getDestinationMultiplier destination
      in case hotel of
           Val h \<Rightarrow>
             Inr \<lparr>pricePerNight =
                    math_round
                      (js_times
                         (js_times (Num (fl (basePrice h))) (js_plus (Num 1) (Num variation)))
                         (to_number destinationMultiplier)),
                  hotelName = tier_name h,
                  rating = tier_rating h,
                  amenities = tier_amenities h,
                  hotel_availability = (rnd 1 > fl 0.15),
                  cancellation = (roomType \<noteq> ''budget''),
                  breakfast = (''Breakfast'' \<in> set (tier_amenities h)),
                  wifi = True,
                  location = ''City Center''\<rparr>
         | Inherited \<Rightarrow> Inl TypeError
         | Undefined \<Rightarrow> Inl TypeError)"

subsection \<open>mockActivityAPI\<close>

definition activities :: "(string \<times> string list) list" where
  "activities =
     [(''cultural'', [''Museum Tour'', ''Historical Walk'', ''Art Gallery Visit'', ''Cultural Show'']),
      (''adventure'', [''Hiking Tour'', ''Water Sports'', ''Rock Climbing'', ''Zip Lining'']),
      (''food'', [''Food Tour'', ''Cooking Class'', ''Wine Tasting'', ''Street Food Walk'']),
      (''nature'', [''Nature Walk'', ''Wildlife Safari'', ''Botanical Garden'', ''Beach Day'']),
      (''default'', [''City Tour'', ''Sightseeing'', ''Local Experience'', ''Photography Walk''])]"

record activity_quote =
  averagePrice :: jsnum
  recommendedActivities :: "string list"
  totalActivities :: int
  bookingRequired :: bool
  groupDiscount :: bool
  cancellationPolicy :: string

text \<open>
  Draw 0 is the price, draw 1 the booking flag. \<^verbatim>\<open>duration\<close> and \<^verbatim>\<open>travelers\<close> are
  integers. When \<^verbatim>\<open>interests[0]\<close> names a member of \<^verbatim>\<open>Object.prototype\<close>,
  \<^verbatim>\<open>availableActivities\<close> is that built-in, which has no \<^verbatim>\<open>slice\<close>, and the call of
  \<^verbatim>\<open>availableActivities.slice\<close> raises a \<^verbatim>\<open>TypeError\<close>.
\<close>

definition mockActivityAPI ::
  "string \<Rightarrow> int \<Rightarrow> int \<Rightarrow> string list \<Rightarrow> (nat \<Rightarrow> real) \<Rightarrow> js_error + activity_quote" where
  "mockActivityAPI destination duration travelers interests rnd =
     (let activityType = (case interests of [] \<Rightarrow> ''default'' | i # _ \<Rightarrow> i);
          availableActivities =
            obj_or (js_get activities activityType) (js_get activities ''default'')
      in case availableActivities of
           Val acts \<Rightarrow>
             Inr \<lparr>averagePrice =
                    math_round (js_plus (Num 25) (js_times (Num (rnd 0)) (Num 75))),
                  recommendedActivities = slice0 acts (min duration 4),
                  totalActivities = min (duration * 2) 10,
                  bookingRequired = (rnd 1 > fl 0.3),
                  groupDiscount = (travelers > 4),
                  cancellationPolicy = ''24 hours free cancellation''\<rparr>
         | Inherited \<Rightarrow> Inl TypeError
         | Undefined \<Rightarrow> Inl TypeError)"

subsection \<open>getFlightDetails\<close>

definition domesticDurations :: "(string \<times> real) list" where
  "domesticDurations =
     [(''mumbai-delhi'', 2.5), (''delhi-mumbai'', 2.5),
      (''mumbai-kolkata'', 3.0), (''kolkata-mumbai'', 3.0),
      (''delhi-kolkata'', 2.0), (''kolkata-delhi'', 2.0),
      (''mumbai-goa'', 1.5), (''goa-mumbai'', 1.5),
      (''delhi-goa'', 2.5), (''goa-delhi'', 2.5),
      (''kolkata-goa'', 2.5), (''goa-kolkata'', 2.5),
      (''kolkata-imphal'', 1.5), (''imphal-kolkata'', 1.5),
      (''mumbai-bangalore'', 2.0), (''bangalore-mumbai'', 2.0),
      (''delhi-bangalore'', 2.5), (''bangalore-delhi'', 2.5),
      (''mumbai-chennai'', 2.5), (''chennai-mumbai'', 2.5),
      (''delhi-chennai'', 2.5), (''chennai-delhi'', 2.5),
      (''bangalore-chennai'', 1.0), (''chennai-bangalore'', 1.0),
      (''mumbai-hyderabad'', 1.5), (''hyderabad-mumbai'', 1.5),
      (''delhi-hyderabad'', 2.0), (''hyderabad-delhi'', 2.0),
      (''bangalore-hyderabad'', 1.0), (''hyderabad-bangalore'', 1.0),
      (''chennai-hyderabad'', 1.5), (''hyderabad-chennai'', 1.5)]"

definition internationalDurations :: "(string \<times> real) list" where
  "internationalDurations =
     [(''mumbai-dubai'', 3.5), (''dubai-mumbai'', 3.5),
      (''delhi-dubai'', 3.5), (''dubai-delhi'', 3.5),
      (''mumbai-london'', 9.0), (''london-mumbai'', 9.0),
      (''delhi-london'', 8.5), (''london-delhi'', 8.5),
      (''mumbai-paris'', 9.5), (''paris-mumbai'', 9.5),
      (''delhi-paris'', 9.0), (''paris-delhi'', 9.0),
      (''mumbai-new york'', 15.0), (''new york-mumbai'', 15.0),
      (''delhi-new york'', 14.5), (''new york-delhi'', 14.5),
      (''london-new york'', 8.0), (''new york-london'', 8.0),
      (''paris-new york'', 8.5), (''new york-paris'', 8.5),
      (''london-paris'', 1.5), (''paris-london'', 1.5),
      (''dubai-london'', 7.0), (''london-dubai'', 7.0),
      (''dubai-paris'', 7.5), (''paris-dubai'', 7.5)]"

text \<open>
  The base duration of the route: the forward key, then the reverse key, then the default
  of the category.
\<close>

definition baseDuration :: "string \<Rightarrow> string \<Rightarrow> bool \<Rightarrow> real jsval" where
  "baseDuration origin destination isDomestic =
     (let routeKey = toLowerCase origin @ ''-'' @ toLowerCase destination;
          reverseRouteKey = toLowerCase destination @ ''-'' @ toLowerCase origin
      in if isDomestic
         then num_or (num_or (js_get domesticDurations routeKey)
                        (js_get domesticDurations reverseRouteKey)) (Val 2.0)
         else num_or (num_or (js_get internationalDurations routeKey)
                        (js_get internationalDurations reverseRouteKey)) (Val 8.0))"

text \<open>
  The duration after \<^verbatim>\<open>duration += variation\<close>, where the variation is
  \<^verbatim>\<open>(Math.random() - 0.5) * 0.5\<close>; \<open>r\<close> is the draw.
\<close>

definition resolvedDuration :: "string \<Rightarrow> string \<Rightarrow> bool \<Rightarrow> real \<Rightarrow> jsnum" where
  "resolvedDuration origin destination isDomestic r =
     js_plus (to_number (baseDuration origin destination isDomestic))
       (js_times (js_minus (Num r) (Num (fl 0.5))) (Num (fl 0.5)))"

text \<open>The stop count from the route type, the resolved duration and the draw \<open>r\<close>.\<close>

definition stopsFor :: "bool \<Rightarrow> jsnum \<Rightarrow> real \<Rightarrow> nat" where
  "stopsFor isDomestic duration r =
     (if isDomestic then (if r > fl 0.8 then 1 else 0)
      else if js_less duration (Num 5) then (if r > fl 0.7 then 0 else 1)
      else if js_less duration (Num 10) then (if r > fl 0.5 then 1 else 0)
      else (if r > fl 0.3 then 1 else 2))"

text \<open>The decimal digits of an integer, as the template string prints it.\<close>

fun digits :: "nat \<Rightarrow> string" where
  "digits n =
     (if n < 10 then [''0123456789'' ! n]
      else digits (n div 10) @ [''0123456789'' ! (n mod 10)])"

definition show_int :: "int \<Rightarrow> string" where
  "show_int i = (if i < 0 then CHR ''-'' # digits (nat (- i)) else digits (nat i))"

definition durationStr :: "jsnum \<Rightarrow> string" where
  "durationStr duration =
     (case duration of
        NaN \<Rightarrow> ''NaNh NaNm''
      | Num d \<Rightarrow>
          (let hours = \<lfloor>d\<rfloor>;
               minutes = round_half_up (fl (fl (d - of_int hours) * 60))
           in show_int hours @ ''h '' @ show_int minutes @ ''m''))"

record flight_details =
  duration_str :: string
  stops_count :: nat

text \<open>Draw 0 is the variation of the duration, draw 1 decides the stops.\<close>

definition getFlightDetails :: "string \<Rightarrow> string \<Rightarrow> bool \<Rightarrow> (nat \<Rightarrow> real) \<Rightarrow> flight_details" where
  "getFlightDetails origin destination isDomestic rnd =
     (let duration = resolvedDuration origin destination isDomestic (rnd 0);
          stops = stopsFor isDomestic duration (rnd 1)
      in \<lparr>duration_str = durationStr duration, stops_count = stops\<rparr>)"

subsection \<open>mockFlightAPI\<close>

definition routes :: "(string \<times> (string \<times> real) list) list" where
  "routes =
     [(''new york'', [(''paris'', 450), (''tokyo'', 800), (''london'', 400), (''dubai'', 600),
                      (''mumbai'', 900), (''delhi'', 850)]),
      (''london'', [(''paris'', 150), (''tokyo'', 700), (''new york'', 400), (''dubai'', 350),
                    (''mumbai'', 500), (''delhi'', 480)]),
      (''mumbai'', [(''dubai'', 200), (''london'', 500), (''paris'', 550), (''tokyo'', 400),
                    (''new york'', 900), (''delhi'', 80), (''kolkata'', 120), (''goa'', 150),
                    (''bangalore'', 100), (''chennai'', 110), (''hyderabad'', 90)]),
      (''delhi'', [(''dubai'', 180), (''london'', 480), (''paris'', 520), (''tokyo'', 380),
                   (''new york'', 850), (''mumbai'', 80), (''kolkata'', 100), (''goa'', 130),
                   (''bangalore'', 120), (''chennai'', 130), (''hyderabad'', 70)]),
      (''kolkata'', [(''mumbai'', 120), (''delhi'', 100), (''goa'', 180), (''bangalore'', 140),
                     (''chennai'', 150), (''hyderabad'', 120), (''dubai'', 250),
                     (''singapore'', 300), (''imphal'', 100)]),
      (''goa'', [(''mumbai'', 150), (''delhi'', 130), (''kolkata'', 180), (''bangalore'', 160),
                 (''chennai'', 170), (''hyderabad'', 140)]),
      (''bangalore'', [(''mumbai'', 100), (''delhi'', 120), (''kolkata'', 140), (''goa'', 160),
                       (''chennai'', 50), (''hyderabad'', 60), (''dubai'', 220)]),
      (''chennai'', [(''mumbai'', 110), (''delhi'', 130), (''kolkata'', 150), (''goa'', 170),
                     (''bangalore'', 50), (''hyderabad'', 80)]),
      (''hyderabad'', [(''mumbai'', 90), (''delhi'', 70), (''kolkata'', 120), (''goa'', 140),
                       (''bangalore'', 60), (''chennai'', 80)]),
      (''paris'', [(''london'', 150), (''new york'', 450), (''tokyo'', 650), (''dubai'', 400)]),
      (''tokyo'', [(''new york'', 800), (''london'', 700), (''paris'', 650), (''dubai'', 550)]),
      (''dubai'', [(''london'', 350), (''paris'', 400), (''new york'', 600), (''tokyo'', 550),
                   (''mumbai'', 200), (''delhi'', 180)])]"

text \<open>
  \<^verbatim>\<open>routes[lowerOrigin]?.[lowerDestination]\<close>. When \<^verbatim>\<open>lowerOrigin\<close> names a member of
  \<^verbatim>\<open>Object.prototype\<close>, the second lookup is made on that built-in; what it finds there
  belongs to the host, and is the parameter \<open>builtin\<close>: \<open>builtin o d\<close> is \<open>Val x\<close> for a
  number \<open>x\<close> (in a standard host \<^verbatim>\<open>Object.length\<close>, which is 1), \<open>Inherited\<close> for any other
  truthy value and \<open>Undefined\<close> for a falsy one.
\<close>

definition routeLookup ::
  "(string \<Rightarrow> string \<Rightarrow> real jsval) \<Rightarrow> string \<Rightarrow> string \<Rightarrow> real jsval" where
  "routeLookup builtin lowerOrigin lowerDestination =
     (case js_get routes lowerOrigin of
        Val tbl \<Rightarrow> js_get tbl lowerDestination
      | Inherited \<Rightarrow> builtin lowerOrigin lowerDestination
      | Undefined \<Rightarrow> Undefined)"

definition flightBasePrice ::
  "(string \<Rightarrow> string \<Rightarrow> real jsval) \<Rightarrow> string \<Rightarrow> string \<Rightarrow> real jsval" where
  "flightBasePrice builtin lowerOrigin lowerDestination =
     num_or (routeLookup builtin lowerOrigin lowerDestination) (Val 500)"

text \<open>\<^verbatim>\<open>Math.random() * 0.5 - 0.25\<close>, from the draw \<open>r\<close>.\<close>

definition flightVariation :: "real \<Rightarrow> real" where
  "flightVariation r = fl (fl (r * fl 0.5) - fl 0.25)"

text \<open>The own entry of the table for the ordered pair, if there is one.\<close>

definition routeEntry :: "string \<Rightarrow> string \<Rightarrow> real option" where
  "routeEntry lowerOrigin lowerDestination =
     (case map_of routes lowerOrigin of
        None \<Rightarrow> None
      | Some tbl \<Rightarrow> map_of tbl lowerDestination)"

text \<open>A host whose built-ins have none of the properties looked up.\<close>

definition no_builtin :: "string \<Rightarrow> string \<Rightarrow> real jsval" where
  "no_builtin lowerOrigin lowerDestination = Undefined"

definition indianCities :: "string list" where
  "indianCities =
     [''Mumbai'', ''Delhi'', ''Kolkata'', ''Goa'', ''Bangalore'', ''Chennai'', ''Hyderabad'',
      ''Ahmedabad'', ''Jaipur'', ''Pune'', ''Imphal'', ''Guwahati'', ''Shillong'', ''Agartala'',
      ''Aizawl'', ''Dibrugarh'', ''Silchar'']"

definition isDomesticRoute :: "string \<Rightarrow> string \<Rightarrow> bool" where
  "isDomesticRoute lowerOrigin lowerDestination =
     (lowerOrigin \<in> set (map toLowerCase indianCities) \<and>
      lowerDestination \<in> set (map toLowerCase indianCities))"

definition airlinesFor :: "bool \<Rightarrow> string list" where
  "airlinesFor isDomestic =
     (if isDomestic then [''Indigo'', ''Air India'', ''SpiceJet'', ''Vistara'', ''GoAir'']
      else [''Emirates'', ''British Airways'', ''Lufthansa'', ''Air India'', ''Qatar Airways'',
            ''Singapore Airlines'', ''Thai Airways''])"

record flight_quote =
  price :: jsnum
  airline :: "string jsval"
  flight_duration :: string
  stops :: nat
  availability :: bool
  bookingClass :: "string jsval"
  baggage :: string
  refundable :: bool

text \<open>
  \<open>departMonth\<close> stands for \<^verbatim>\<open>new Date(departDate).getMonth()\<close>: \<open>Num 0\<close> to \<open>Num 11\<close>, or
  \<open>NaN\<close> for a date that does not parse. The draws, in the order of the calls: 0 the price
  variation, 1 and 2 those of \<^verbatim>\<open>getFlightDetails\<close>, 3 the airline, 4 the availability,
  5 the booking class, 6 the refundable flag.
\<close>

definition mockFlightAPI ::
  "(string \<Rightarrow> string \<Rightarrow> real jsval) \<Rightarrow> string \<Rightarrow> string \<Rightarrow> jsnum \<Rightarrow> string \<Rightarrow> int \<Rightarrow>
     (nat \<Rightarrow> real) \<Rightarrow> flight_quote" where
  "mockFlightAPI builtin origin destination departMonth returnDate passengers rnd =
     (let lowerOrigin = toLowerCase (trim origin);
          lowerDestination = toLowerCase (trim destination);
          basePrice = flightBasePrice builtin lowerOrigin lowerDestination;
          variation = flightVariation (rnd 0);
          seasonalMultiplier = getSeasonalMultiplier departMonth;
          isDomestic = isDomesticRoute lowerOrigin lowerDestination;
          airlines = airlinesFor isDomestic;
          flightDetails =
            getFlightDetails lowerOrigin lowerDestination isDomestic (drop_draws 1 rnd)
      in \<lparr>price =
            math_round
              (js_times (js_times (to_number basePrice) (js_plus (Num 1) (Num variation)))
                 (Num (fl seasonalMultiplier))),
          airline = js_index airlines \<lfloor>fl (rnd 3 * real (length airlines))\<rfloor>,
          flight_duration = duration_str flightDetails,
          stops = stops_count flightDetails,
          availability = (rnd 4 > fl 0.2),
          bookingClass =
            js_index [''Economy'', ''Premium Economy'', ''Business''] \<lfloor>fl (rnd 5 * 3)\<rfloor>,
          baggage = ''20kg included'',
          refundable = (rnd 6 > fl 0.5)\<rparr>)"

subsection \<open>generateRecommendations\<close>

text \<open>
  The seventeen strings the generator can push, one constructor each, in the order of the
  source; \<open>advice_text\<close> is the string without the emoji it starts with.
\<close>

datatype advice =
    BudgetHostels | BudgetTransport | BudgetWalkingTours | BudgetStreetFood
  | LuxuryBookAhead | LuxuryPackageDeals | LuxuryHotelPackages
  | LongStayDiscounts | LongStayPasses | LongStayRestDays
  | PeakBookEarly | PeakShoulderSeason | PeakCrowds
  | OffPeakValue | OffPeakWeather
  | GroupDiscounts | GroupRentals

fun advice_text :: "advice \<Rightarrow> string" where
  "advice_text BudgetHostels = ''Consider hostels or budget hotels for accommodation''"
| "advice_text BudgetTransport = ''Use public transportation to save on travel costs''"
| "advice_text BudgetWalkingTours = ''Look for free walking tours and city attractions''"
| "advice_text BudgetStreetFood = ''Try local street food for authentic and affordable meals''"
| "advice_text LuxuryBookAhead = ''Book flights 2-3 months in advance for better deals''"
| "advice_text LuxuryPackageDeals = ''Consider package deals for flights + hotels''"
| "advice_text LuxuryHotelPackages =
     ''Look for hotel packages that include breakfast and amenities''"
| "advice_text LongStayDiscounts = ''Book longer stays for potential accommodation discounts''"
| "advice_text LongStayPasses = ''Consider weekly transport passes for better value''"
| "advice_text LongStayRestDays = ''Plan rest days to avoid burnout and extra costs''"
| "advice_text PeakBookEarly = ''This is peak season - book early for better prices''"
| "advice_text PeakShoulderSeason = ''Consider shoulder season for 20-30% savings''"
| "advice_text PeakCrowds = ''Expect crowds at popular attractions''"
| "advice_text OffPeakValue = ''Great choice! Off-peak season offers better value''"
| "advice_text OffPeakWeather = ''Weather might be less predictable, pack accordingly''"
| "advice_text GroupDiscounts = ''Look for group discounts on activities and tours''"
| "advice_text GroupRentals = ''Consider vacation rentals for larger groups''"

text \<open>The rule of the generator that pushes the string.\<close>

datatype advice_rule = BudgetTier | LuxuryTier | LongStay | PeakSeason | OffPeakSeason | GroupSize

fun rule_of :: "advice \<Rightarrow> advice_rule" where
  "rule_of BudgetHostels = BudgetTier"
| "rule_of BudgetTransport = BudgetTier"
| "rule_of BudgetWalkingTours = BudgetTier"
| "rule_of BudgetStreetFood = BudgetTier"
| "rule_of LuxuryBookAhead = LuxuryTier"
| "rule_of LuxuryPackageDeals = LuxuryTier"
| "rule_of LuxuryHotelPackages = LuxuryTier"
| "rule_of LongStayDiscounts = LongStay"
| "rule_of LongStayPasses = LongStay"
| "rule_of LongStayRestDays = LongStay"
| "rule_of PeakBookEarly = PeakSeason"
| "rule_of PeakShoulderSeason = PeakSeason"
| "rule_of PeakCrowds = PeakSeason"
| "rule_of OffPeakValue = OffPeakSeason"
| "rule_of OffPeakWeather = OffPeakSeason"
| "rule_of GroupDiscounts = GroupSize"
| "rule_of GroupRentals = GroupSize"

text \<open>Each \<^verbatim>\<open>push\<close> appends to the list; the four blocks run in the order of the source.\<close>

definition generateRecommendations ::
  "string \<Rightarrow> string \<Rightarrow> jsnum \<Rightarrow> int \<Rightarrow> int \<Rightarrow> advice list" where
  "generateRecommendations destination budgetType month duration travelers =
     (if budgetType = ''budget''
      then [BudgetHostels, BudgetTransport, BudgetWalkingTours, BudgetStreetFood]
      else if budgetType = ''luxury''
      then [LuxuryBookAhead, LuxuryPackageDeals, LuxuryHotelPackages]
      else [])
     @ (if duration > 7 then [LongStayDiscounts, LongStayPasses, LongStayRestDays] else [])
     @ (if month \<in> set peakMonths
        then [PeakBookEarly, PeakShoulderSeason, PeakCrowds]
        else [OffPeakValue, OffPeakWeather])
     @ (if travelers > 4 then [GroupDiscounts, GroupRentals] else [])"

section \<open>Properties\<close>

subsection \<open>Rounding to the nearest double\<close>

lemma pow2_pos [simp]: "0 < pow2 e"
  by (simp add: pow2_def)

lemma pow2_nonneg [simp]: "0 \<le> pow2 e"
  using pow2_pos[of e] by linarith

lemma pow2_powr: "pow2 e = 2 powr (of_int e)"
proof (cases "0 \<le> e")
  case True
  then show ?thesis
    by (simp add: pow2_def powr_realpow[symmetric])
next
  case False
  have "(2::real) powr (of_int e) = 1 / 2 powr (of_int (- e))"
    using powr_minus_divide[of "2::real" "of_int (- e)"] by simp
  also have "\<dots> = 1 / 2 ^ nat (- e)"
    using False by (simp add: powr_realpow[symmetric])
  finally show ?thesis using False by (simp add: pow2_def)
qed

lemma pow2_add: "pow2 (a + b) = pow2 a * pow2 b"
  by (simp add: pow2_powr powr_add)

lemma pow2_mono: "a \<le> b \<Longrightarrow> pow2 a \<le> pow2 b"
  by (simp add: pow2_powr)

lemma pow2_nat: "pow2 (int n) = 2 ^ n"
  by (simp add: pow2_def)

lemma binade_bounds:
  assumes "0 < x"
  shows "pow2 (binade x) \<le> x" and "x < pow2 (binade x + 1)"
proof -
  show "pow2 (binade x) \<le> x"
  proof (cases "1 \<le> x")
    case True
    then have n: "0 < \<lfloor>x\<rfloor>" by simp
    then have b: "1 \<le> bitlen \<lfloor>x\<rfloor>" by (simp add: bitlen_alt_def)
    from bitlen_bounds[OF n] have "(2::int) ^ nat (bitlen \<lfloor>x\<rfloor> - 1) \<le> \<lfloor>x\<rfloor>" by simp
    then have "real_of_int (2 ^ nat (bitlen \<lfloor>x\<rfloor> - 1)) \<le> x"
      by (simp only: le_floor_iff)
    with True b show ?thesis by (simp add: binade_def pow2_def)
  next
    case False
    with assms have y: "1 < 1 / x" by simp
    let ?M = "\<lceil>1 / x\<rceil> - 1"
    from y have m: "0 < ?M" by linarith
    have "real_of_int ?M < 1 / x" by linarith
    moreover from bitlen_bounds[OF m] have "(2::int) ^ nat (bitlen ?M - 1) \<le> ?M" by simp
    then have "(2::real) ^ nat (bitlen ?M - 1) \<le> real_of_int ?M"
      by (metis of_int_le_iff of_int_numeral of_int_power)
    ultimately have "1 / x \<le> real_of_int (?M + 1)" "real_of_int ?M < 1 / x" by linarith+
    from bitlen_bounds[OF m] have "?M + 1 \<le> 2 ^ nat (bitlen ?M)" by simp
    then have "real_of_int (?M + 1) \<le> 2 ^ nat (bitlen ?M)"
      by (metis of_int_le_iff of_int_numeral of_int_power)
    with \<open>1 / x \<le> real_of_int (?M + 1)\<close> have "1 / x \<le> 2 ^ nat (bitlen ?M)" by linarith
    then have "1 / 2 ^ nat (bitlen ?M) \<le> x"
      using assms by (simp add: field_simps)
    moreover have "0 \<le> bitlen ?M" by (rule bitlen_nonneg)
    ultimately show ?thesis using False m
      by (auto simp: binade_def pow2_def bitlen_eq_zero_iff)
  qed
  show "x < pow2 (binade x + 1)"
  proof (cases "1 \<le> x")
    case True
    then have n: "0 < \<lfloor>x\<rfloor>" by simp
    then have b: "1 \<le> bitlen \<lfloor>x\<rfloor>" by (simp add: bitlen_alt_def)
    from bitlen_bounds[OF n] have "\<lfloor>x\<rfloor> + 1 \<le> 2 ^ nat (bitlen \<lfloor>x\<rfloor>)" by simp
    then have "real_of_int (\<lfloor>x\<rfloor> + 1) \<le> 2 ^ nat (bitlen \<lfloor>x\<rfloor>)"
      by (metis of_int_le_iff of_int_numeral of_int_power)
    moreover have "x < real_of_int (\<lfloor>x\<rfloor> + 1)" by linarith
    ultimately have "x < 2 ^ nat (bitlen \<lfloor>x\<rfloor>)" by linarith
    then show ?thesis using True b by (simp add: binade_def pow2_def)
  next
    case False
    with assms have y: "1 < 1 / x" by simp
    let ?M = "\<lceil>1 / x\<rceil> - 1"
    from y have m: "0 < ?M" by linarith
    then have b: "1 \<le> bitlen ?M" by (simp add: bitlen_alt_def)
    have lt: "real_of_int ?M < 1 / x" by linarith
    from bitlen_bounds[OF m] have "(2::int) ^ nat (bitlen ?M - 1) \<le> ?M" by simp
    then have "(2::real) ^ nat (bitlen ?M - 1) \<le> real_of_int ?M"
      by (metis of_int_le_iff of_int_numeral of_int_power)
    with lt have "2 ^ nat (bitlen ?M - 1) < 1 / x" by linarith
    then have x: "x < 1 / 2 ^ nat (bitlen ?M - 1)"
      using assms by (simp add: field_simps)
    show ?thesis
    proof (cases "bitlen ?M = 1")
      case True
      with x False show ?thesis by (simp add: binade_def pow2_def)
    next
      case F: False
      with b have "\<not> 0 \<le> - bitlen ?M + 1" "nat (- (- bitlen ?M + 1)) = nat (bitlen ?M - 1)"
        by auto
      with x False show ?thesis by (simp add: binade_def pow2_def)
    qed
  qed
qed

lemma binade_unique:
  assumes "0 < x" "pow2 e \<le> x" "x < pow2 (e + 1)"
  shows "binade x = e"
proof (rule ccontr)
  assume ne: "binade x \<noteq> e"
  note b = binade_bounds[OF assms(1)]
  show False
  proof (cases "binade x < e")
    case True
    then have "pow2 (binade x + 1) \<le> pow2 e" by (intro pow2_mono) simp
    with b(2) assms(2) show False by linarith
  next
    case False
    with ne have "pow2 (e + 1) \<le> pow2 (binade x)" by (intro pow2_mono) simp
    with b(1) assms(3) show False by linarith
  qed
qed

lemma binade_mono:
  assumes "0 < x" "x \<le> y"
  shows "binade x \<le> binade y"
proof (rule ccontr)
  assume "\<not> binade x \<le> binade y"
  then have "pow2 (binade y + 1) \<le> pow2 (binade x)" by (intro pow2_mono) simp
  with binade_bounds(1)[OF assms(1)] binade_bounds(2)[of y] assms show False by linarith
qed

lemma rne_bounds: "\<lfloor>t\<rfloor> \<le> rne t" "rne t \<le> \<lfloor>t\<rfloor> + 1"
  by (simp_all add: rne_def Let_def)

lemma rne_of_int [simp]: "rne (of_int k) = k"
  by (simp add: rne_def)

lemma rne_mono:
  assumes "s \<le> t"
  shows "rne s \<le> rne t"
proof (cases "\<lfloor>s\<rfloor> = \<lfloor>t\<rfloor>")
  case True
  with assms show ?thesis by (auto simp: rne_def Let_def)
next
  case False
  with assms have "\<lfloor>s\<rfloor> + 1 \<le> \<lfloor>t\<rfloor>" using floor_mono[OF assms] by linarith
  with rne_bounds(2)[of s] rne_bounds(1)[of t] show ?thesis by linarith
qed

lemma rne_ge: "of_int k \<le> t \<Longrightarrow> k \<le> rne t"
  using rne_mono[of "of_int k" t] by simp

lemma rne_le: "t \<le> of_int k \<Longrightarrow> rne t \<le> k"
  using rne_mono[of t "of_int k"] by simp

lemma rne_minus: "rne (- t) = - rne t"
proof (cases "t \<in> \<int>")
  case True
  then obtain k where "t = of_int k" by (auto elim: Ints_cases)
  then have "- t = of_int (- k)" by simp
  then show ?thesis unfolding \<open>t = of_int k\<close> by (simp only: rne_of_int)
next
  case False
  then have "t \<noteq> of_int \<lfloor>t\<rfloor>"
    by (metis Ints_of_int)
  then have f: "\<lfloor>- t\<rfloor> = - \<lfloor>t\<rfloor> - 1"
    by (simp add: floor_minus ceiling_altdef)
  have e: "even (- \<lfloor>t\<rfloor> - 1) \<longleftrightarrow> odd \<lfloor>t\<rfloor>" by simp
  show ?thesis
    unfolding rne_def Let_def f e by (auto simp: algebra_simps)
qed


lemma fl_alt: "fl x = (if x = 0 then 0 else of_int (rne (x / ulp_of x)) * ulp_of x)"
  by (simp add: fl_def ulp_of_def Let_def)

lemma fl_minus: "fl (- x) = - fl x"
  by (simp add: fl_def Let_def rne_minus)

lemma fl_0 [simp]: "fl 0 = 0"
  by (simp add: fl_def)

lemma fl_nonneg:
  assumes "0 \<le> x"
  shows "0 \<le> fl x"
proof (cases "x = 0")
  case True
  then show ?thesis by simp
next
  case False
  have "0 < ulp_of x" by (simp add: ulp_of_def)
  with assms have "of_int 0 \<le> x / ulp_of x" by simp
  then have "0 \<le> rne (x / ulp_of x)" by (rule rne_ge)
  with \<open>0 < ulp_of x\<close> False show ?thesis by (simp add: fl_alt)
qed

lemma fl_mono_pos:
  assumes "0 < x" "x \<le> y"
  shows "fl x \<le> fl y"
proof -
  let ?ex = "max (binade x) (- 1022)" and ?ey = "max (binade y) (- 1022)"
  from assms have y: "0 < y" by simp
  have le: "?ex \<le> ?ey" using binade_mono[OF assms] assms by simp
  have fx: "fl x = of_int (rne (x / pow2 (?ex - 52))) * pow2 (?ex - 52)"
    and fy: "fl y = of_int (rne (y / pow2 (?ey - 52))) * pow2 (?ey - 52)"
    using assms y by (simp_all add: fl_def Let_def)
  show ?thesis
  proof (cases "?ex = ?ey")
    case True
    have "x / pow2 (?ex - 52) \<le> y / pow2 (?ex - 52)"
      using assms by (intro divide_right_mono) simp_all
    then have "rne (x / pow2 (?ex - 52)) \<le> rne (y / pow2 (?ex - 52))" by (rule rne_mono)
    then show ?thesis unfolding fx fy True[symmetric] by simp
  next
    case False
    with le have lt: "?ex + 1 \<le> ?ey" by linarith
    then have ey: "?ey = binade y" using y by (simp add: max_def split: if_splits)
    let ?ux = "pow2 (?ex - 52)" and ?uy = "pow2 (?ey - 52)"
    have sx: "pow2 (?ex + 1) = pow2 53 * ?ux"
      using pow2_add[of 53 "?ex - 52"] by (simp add: add.commute)
    have sy: "pow2 ?ey = pow2 52 * ?uy"
      using pow2_add[of 52 "?ey - 52"] by simp
    have p53: "pow2 53 = of_int (2 ^ 53)" and p52: "pow2 52 = of_int (2 ^ 52)"
      by (simp_all add: pow2_def)
    have "x < pow2 (binade x + 1)" using binade_bounds(2)[OF assms(1)] .
    also have "\<dots> \<le> pow2 (?ex + 1)" by (intro pow2_mono) simp
    finally have "x < pow2 53 * ?ux" by (simp only: sx)
    then have "x / ?ux < pow2 53" by (simp add: pos_divide_less_eq)
    then have "x / ?ux \<le> of_int (2 ^ 53)" by (simp only: p53)
    then have "rne (x / ?ux) \<le> 2 ^ 53" by (rule rne_le)
    then have "of_int (rne (x / ?ux)) \<le> pow2 53"
      unfolding p53 by (simp only: of_int_le_iff)
    then have "of_int (rne (x / ?ux)) * ?ux \<le> pow2 53 * ?ux"
      by (intro mult_right_mono) simp_all
    then have "fl x \<le> pow2 (?ex + 1)" by (simp only: fx sx)
    also have "\<dots> \<le> pow2 ?ey" using lt by (rule pow2_mono)
    finally have a: "fl x \<le> pow2 ?ey" .
    have "pow2 ?ey \<le> y" using binade_bounds(1)[OF y] by (simp only: ey)
    then have "pow2 52 * ?uy \<le> y" by (simp only: sy)
    then have "pow2 52 \<le> y / ?uy" by (simp add: pos_le_divide_eq)
    then have "of_int (2 ^ 52) \<le> y / ?uy" by (simp only: p52)
    then have "2 ^ 52 \<le> rne (y / ?uy)" by (rule rne_ge)
    then have "pow2 52 \<le> of_int (rne (y / ?uy))"
      unfolding p52 by (simp only: of_int_le_iff)
    then have "pow2 52 * ?uy \<le> of_int (rne (y / ?uy)) * ?uy"
      by (intro mult_right_mono) simp_all
    then have "pow2 ?ey \<le> fl y" by (simp only: fy sy)
    with a show ?thesis by linarith
  qed
qed

lemma fl_mono:
  assumes "x \<le> y"
  shows "fl x \<le> fl y"
proof -
  consider "0 < x" | "x \<le> 0" "0 \<le> y" | "y < 0" by linarith
  then show ?thesis
  proof cases
    case 1
    then show ?thesis using assms by (rule fl_mono_pos)
  next
    case 2
    have "fl x \<le> 0" using fl_nonneg[of "- x"] 2(1) by (simp add: fl_minus)
    moreover have "0 \<le> fl y" using 2(2) by (rule fl_nonneg)
    ultimately show ?thesis by linarith
  next
    case 3
    then have "fl (- y) \<le> fl (- x)" using assms by (intro fl_mono_pos) simp_all
    then show ?thesis by (simp add: fl_minus)
  qed
qed





text \<open>
  Evaluation of \<open>fl\<close> at a number given by numerals. The equations unfold for ever on a term
  with a variable, so they are used on closed terms only.
\<close>

lemmas fl_eval = fl_def binade_def pow2_def rne_def compute_bitlen

lemma fl_literals:
  "fl (1 / 2) = 1 / 2" "fl (1 / 4) = 1 / 4" "fl 1 = 1"
  "fl (3 / 10) = 5404319552844595 / 18014398509481984"
  "fl (3 / 20) = 5404319552844595 / 36028797018963968"
  "fl (7 / 10) = 3152519739159347 / 4503599627370496"
  "fl (13 / 10) = 5854679515581645 / 4503599627370496"
  "fl (9 / 10) = 8106479329266893 / 9007199254740992"
  by (simp_all add: fl_eval)

subsection \<open>Lookups in object literals\<close>

lemma js_get_Val_mem: "js_get tbl k = Val v \<Longrightarrow> (k, v) \<in> set tbl"
  by (auto simp: js_get_def split: option.splits if_splits dest: map_of_SomeD)

lemma js_get_own:
  "k \<notin> set object_prototype_keys \<Longrightarrow>
   js_get tbl k = (case map_of tbl k of Some v \<Rightarrow> Val v | None \<Rightarrow> Undefined)"
  by (simp add: js_get_def split: option.splits)

lemma js_get_inherited:
  "k \<in> set object_prototype_keys \<Longrightarrow> k \<notin> set (map fst tbl) \<Longrightarrow> js_get tbl k = Inherited"
  by (simp add: js_get_def map_of_eq_None_iff[THEN iffD2] split: option.splits)

subsection \<open>Exchange rates\<close>

lemma mockRates_USD:
  "js_get mockRates ''USD'' =
     Val [(''EUR'', 0.85), (''GBP'', 0.73), (''INR'', 83.12), (''JPY'', 149.50)]"
  by (simp add: js_get_def mockRates_def)

lemma getExchangeRates_no_raise: "getExchangeRates_try b = Inr (getExchangeRates b)"
  by (simp add: getExchangeRates_def getExchangeRates_try_def)

lemma getExchangeRates_not_fallback: "getExchangeRates b \<noteq> Val [(''USD'', 1)]"
proof -
  obtain k where k: "getExchangeRates b = obj_or (js_get mockRates k) (js_get mockRates ''USD'')"
    by (simp add: getExchangeRates_def getExchangeRates_try_def)
  show ?thesis
  proof (cases "js_get mockRates k")
    case (Val t)
    then have "(k, t) \<in> set mockRates"
      by (rule js_get_Val_mem)
    then have "t \<noteq> [(''USD'', 1)]"
      by (auto simp: mockRates_def)
    with Val k show ?thesis by simp
  next
    case Inherited
    with k show ?thesis by simp
  next
    case Undefined
    with k show ?thesis by (simp add: mockRates_USD)
  qed
qed

text \<open>
  What \<open>getExchangeRates\<close> returns. For a base currency that is neither one of the four
  keys of the table nor the name of a member of \<^verbatim>\<open>Object.prototype\<close>, it is the USD table.
  For the name of a member of \<^verbatim>\<open>Object.prototype\<close> it is that built-in, which is truthy.
  For every argument the \<^verbatim>\<open>try\<close> block returns normally, and the fallback
  \<^verbatim>\<open>{ 'USD': 1 }\<close> of the \<^verbatim>\<open>catch\<close> block is never the result.
\<close>

lemma getExchangeRates_unknown_base:
  "(k \<notin> set [''USD'', ''EUR'', ''GBP'', ''INR''] \<and> k \<notin> set object_prototype_keys \<longrightarrow>
      getExchangeRates (Some k) =
        Val [(''EUR'', 0.85), (''GBP'', 0.73), (''INR'', 83.12), (''JPY'', 149.50)]) \<and>
   (k \<in> set object_prototype_keys \<longrightarrow> getExchangeRates (Some k) = Inherited) \<and>
   getExchangeRates_try b = Inr (getExchangeRates b) \<and>
   getExchangeRates b \<noteq> Val [(''USD'', 1)]"
proof -
  have own: "getExchangeRates (Some k) =
        Val [(''EUR'', 0.85), (''GBP'', 0.73), (''INR'', 83.12), (''JPY'', 149.50)]"
    if "k \<notin> set [''USD'', ''EUR'', ''GBP'', ''INR'']" "k \<notin> set object_prototype_keys"
    using that
    by (simp add: getExchangeRates_def getExchangeRates_try_def js_get_def mockRates_def)
  have inh: "getExchangeRates (Some k) = Inherited" if "k \<in> set object_prototype_keys"
  proof -
    have "k \<notin> set (map fst mockRates)"
      using that by (auto simp: mockRates_def object_prototype_keys_def)
    then show ?thesis
      using that by (simp add: getExchangeRates_def getExchangeRates_try_def js_get_inherited)
  qed
  from own inh getExchangeRates_no_raise getExchangeRates_not_fallback show ?thesis
    by blast
qed

lemma getExchangeRates_unknown_base_example:
  "''XYZ'' \<notin> set [''USD'', ''EUR'', ''GBP'', ''INR''] \<and> ''XYZ'' \<notin> set object_prototype_keys \<and>
   getExchangeRates (Some ''XYZ'') =
     Val [(''EUR'', 0.85), (''GBP'', 0.73), (''INR'', 83.12), (''JPY'', 149.50)] \<and>
   ''toString'' \<in> set object_prototype_keys \<and> getExchangeRates (Some ''toString'') = Inherited"
  using getExchangeRates_unknown_base [of "''XYZ''" None]
    getExchangeRates_unknown_base [of "''toString''" None]
  by (simp add: object_prototype_keys_def)

text \<open>
  Claim C5 says that every base currency that is not a key of the table gets the USD table.
  The code misses the names that an object literal inherits: \<^verbatim>\<open>'constructor'\<close> is not a
  key of the table, \<^verbatim>\<open>mockRates['constructor']\<close> is the inherited function \<^verbatim>\<open>Object\<close>, and
  \<^verbatim>\<open>||\<close> returns it instead of the USD table.
\<close>

theorem getExchangeRates_constructor:
  "''constructor'' \<notin> set [''USD'', ''EUR'', ''GBP'', ''INR''] \<and>
   getExchangeRates (Some ''constructor'') = Inherited \<and>
   getExchangeRates (Some ''constructor'') \<noteq>
     Val [(''EUR'', 0.85), (''GBP'', 0.73), (''INR'', 83.12), (''JPY'', 149.50)]"
  by (simp add: getExchangeRates_def getExchangeRates_try_def js_get_def mockRates_def
      object_prototype_keys_def)

subsection \<open>Recommendations\<close>

text \<open>
  Claim C8. Called with the budget type \<^verbatim>\<open>'luxury'\<close>, month 6, duration 10 and 5
  travelers, for any destination, \<open>generateRecommendations\<close> returns the three luxury
  strings, then the three strings of a stay longer than 7 days, then the three peak-season
  strings, then the two group strings, and nothing else.
\<close>

theorem generateRecommendations_luxury_long_peak_group:
  "generateRecommendations destination ''luxury'' (Num 6) 10 5 =
     [LuxuryBookAhead, LuxuryPackageDeals, LuxuryHotelPackages,
      LongStayDiscounts, LongStayPasses, LongStayRestDays,
      PeakBookEarly, PeakShoulderSeason, PeakCrowds,
      GroupDiscounts, GroupRentals] \<and>
   map rule_of (generateRecommendations destination ''luxury'' (Num 6) 10 5) =
     [LuxuryTier, LuxuryTier, LuxuryTier, LongStay, LongStay, LongStay,
      PeakSeason, PeakSeason, PeakSeason, GroupSize, GroupSize]"
  by (simp add: generateRecommendations_def peakMonths_def)

subsection \<open>Rounding to an integer\<close>

lemma round_half_up_mono: "x \<le> y \<Longrightarrow> round_half_up x \<le> round_half_up y"
  by (simp add: round_half_up_def floor_mono)

lemma round_half_up_pos: "1 / 2 \<le> x \<Longrightarrow> 0 < round_half_up x"
  unfolding round_half_up_def by linarith

subsection \<open>Hotels\<close>

lemma hotelFor_cases:
  "hotelFor roomType = Inherited \<and> roomType \<in> set object_prototype_keys \<or>
   (\<exists>h. hotelFor roomType = Val h \<and> h \<in> snd ` set hotelTypes \<and>
        roomType \<notin> set object_prototype_keys)"
proof (cases "roomType \<in> set object_prototype_keys")
  case True
  then have "roomType \<notin> set (map fst hotelTypes)"
    by (auto simp: hotelTypes_def object_prototype_keys_def)
  with True show ?thesis by (simp add: hotelFor_def js_get_inherited)
next
  case False
  then have "hotelFor roomType = Val (the (map_of hotelTypes
      (if roomType \<in> set (map fst hotelTypes) then roomType else ''standard'')))"
    by (simp add: hotelFor_def js_get_def hotelTypes_def)
  moreover have "the (map_of hotelTypes
      (if roomType \<in> set (map fst hotelTypes) then roomType else ''standard''))
      \<in> snd ` set hotelTypes"
    by (simp add: hotelTypes_def)
  ultimately show ?thesis using False by blast
qed

lemma hotel_tiers:
  assumes "h \<in> snd ` set hotelTypes"
  shows "60 \<le> basePrice h" "basePrice h \<le> 280" "tier_name h \<noteq> []" "tier_amenities h \<noteq> []"
  using assms by (auto simp: hotelTypes_def)

lemma multipliers_range: "\<forall>(k, v) \<in> set multipliers. 1 / 2 \<le> v \<and> v \<le> 14 / 10"
  by (simp add: multipliers_def)

lemma getDestinationMultiplier_cases:
  "getDestinationMultiplier d = Inherited \<and> d \<in> set object_prototype_keys \<or>
   (\<exists>m. getDestinationMultiplier d = Val m \<and> 1 / 2 \<le> m \<and> m \<le> 14 / 10 \<and>
        d \<notin> set object_prototype_keys)"
proof (cases "d \<in> set object_prototype_keys")
  case True
  then have "d \<notin> set (map fst multipliers)"
    by (auto simp: multipliers_def object_prototype_keys_def)
  with True show ?thesis by (simp add: getDestinationMultiplier_def js_get_inherited)
next
  case False
  show ?thesis
  proof (cases "map_of multipliers d")
    case None
    with False show ?thesis by (simp add: getDestinationMultiplier_def js_get_own)
  next
    case (Some v)
    then have "(d, v) \<in> set multipliers" by (rule map_of_SomeD)
    with multipliers_range have "1 / 2 \<le> v \<and> v \<le> 14 / 10" by blast
    with Some False show ?thesis by (simp add: getDestinationMultiplier_def js_get_own)
  qed
qed

lemma getDestinationMultiplier_unlisted:
  assumes "d \<notin> set (map fst multipliers)" "d \<notin> set object_prototype_keys"
  shows "getDestinationMultiplier d = Val 1"
  using assms
  by (simp add: getDestinationMultiplier_def js_get_own map_of_eq_None_iff[THEN iffD2])

lemma mockHotelAPI_returns:
  "roomType \<notin> set object_prototype_keys \<Longrightarrow>
   \<exists>q. mockHotelAPI destination checkIn checkOut guests roomType rnd = Inr q"
  using hotelFor_cases[of roomType]
  by (auto simp: mockHotelAPI_def Let_def split: jsval.splits)

lemma hotel_tier_prices: "\<forall>(k, h) \<in> set hotelTypes. basePrice h \<in> set [60, 120, 280]"
  by (simp add: hotelTypes_def)

lemma multiplier_values:
  "\<forall>(k, m) \<in> set multipliers. m \<in> set [1.4, 1.3, 1.2, 1.1, 0.6, 0.5, 0.7, 1]"
  by (simp add: multipliers_def)

lemma getDestinationMultiplier_values:
  assumes "getDestinationMultiplier d = Val m"
  shows "m \<in> set [1.4, 1.3, 1.2, 1.1, 0.6, 0.5, 0.7, 1]"
proof (cases "js_get multipliers d")
  case (Val v)
  then have "(d, v) \<in> set multipliers" by (rule js_get_Val_mem)
  with multiplier_values have v: "v \<in> set [1.4, 1.3, 1.2, 1.1, 0.6, 0.5, 0.7, 1]" by blast
  then have "v \<noteq> 0" by auto
  with Val assms have "m = v" by (simp add: getDestinationMultiplier_def)
  with v show ?thesis by simp
next
  case Inherited
  with assms show ?thesis by (simp add: getDestinationMultiplier_def)
next
  case Undefined
  with assms show ?thesis by (simp add: getDestinationMultiplier_def)
qed

lemma mockHotelAPI_Inr:
  assumes "mockHotelAPI destination checkIn checkOut guests roomType rnd = Inr q"
  shows "\<exists>h. hotelFor roomType = Val h \<and> h \<in> snd ` set hotelTypes \<and>
           pricePerNight q =
             math_round
               (js_times
                  (js_times (Num (fl (basePrice h)))
                     (js_plus (Num 1) (Num (hotelVariation (rnd 0)))))
                  (to_number (getDestinationMultiplier destination))) \<and>
           hotelName q = tier_name h \<and> amenities q = tier_amenities h"
  using assms hotelFor_cases[of roomType]
  by (auto simp: mockHotelAPI_def Let_def split: jsval.splits)

text \<open>The variation of a hotel price stays between the doubles of -0.15 and 0.15.\<close>

lemma hotelVariation_range:
  assumes "0 \<le> r" "r < 1"
  shows "- fl 0.15 \<le> hotelVariation r" "hotelVariation r \<le> fl 0.15"
proof -
  let ?a = "fl (r * fl 0.3)"
  have c: "0 < fl 0.3" by (simp add: fl_literals)
  have "fl 0 \<le> ?a" using assms(1) c by (intro fl_mono) simp
  then have lo: "0 \<le> ?a" by simp
  have "r * fl 0.3 \<le> 1 * fl 0.3" using assms(2) c by (intro mult_right_mono) simp_all
  then have "?a \<le> fl (fl 0.3)" by (intro fl_mono) simp
  also have "fl (fl 0.3) = fl 0.3" by (simp add: fl_eval)
  finally have hi: "?a \<le> fl 0.3" .
  have "fl (0 - fl 0.15) \<le> fl (?a - fl 0.15)" using lo by (intro fl_mono) simp
  moreover have "fl (0 - fl 0.15) = - fl 0.15" by (simp add: fl_eval)
  ultimately show "- fl 0.15 \<le> hotelVariation r" by (simp add: hotelVariation_def)
  have "fl (?a - fl 0.15) \<le> fl (fl 0.3 - fl 0.15)" using hi by (intro fl_mono) simp
  moreover have "fl (fl 0.3 - fl 0.15) = fl 0.15" by (simp add: fl_eval)
  ultimately show "hotelVariation r \<le> fl 0.15" by (simp add: hotelVariation_def)
qed

text \<open>The rounded price grows with the variation.\<close>

lemma price_mono:
  assumes "0 \<le> b" "0 \<le> m" "v \<le> w"
  shows "round_half_up (fl (fl (b * fl (1 + v)) * m)) \<le>
         round_half_up (fl (fl (b * fl (1 + w)) * m))"
proof -
  have "fl (1 + v) \<le> fl (1 + w)" using assms(3) by (intro fl_mono) simp
  then have "b * fl (1 + v) \<le> b * fl (1 + w)" using assms(1) by (rule mult_left_mono)
  then have "fl (b * fl (1 + v)) \<le> fl (b * fl (1 + w))" by (rule fl_mono)
  then have "fl (b * fl (1 + v)) * m \<le> fl (b * fl (1 + w)) * m"
    using assms(2) by (rule mult_right_mono)
  then have "fl (fl (b * fl (1 + v)) * m) \<le> fl (fl (b * fl (1 + w)) * m)" by (rule fl_mono)
  then show ?thesis by (rule round_half_up_mono)
qed

text \<open>
  At the two ends of the variation the price that the doubles give is the rounded end of the
  exact band, for each of the three tiers and each multiplier of the table.
\<close>

lemma hotel_band_ends:
  "\<forall>m \<in> set [1.4, 1.3, 1.2, 1.1, 0.6, 0.5, 0.7, 1]. \<forall>b \<in> set [60, 120, 280].
     round_half_up (0.85 * b * m) \<le>
       round_half_up (fl (fl (fl b * fl (1 + - fl 0.15)) * fl m)) \<and>
     round_half_up (fl (fl (fl b * fl (1 + fl 0.15)) * fl m)) \<le>
       round_half_up (1.15 * b * m)"
  by (simp only: list.set ball_simps) (simp add: fl_eval round_half_up_def)

lemma hotel_price_in_band:
  assumes r: "0 \<le> rnd 0" "rnd 0 < 1"
    and d: "destination \<notin> set object_prototype_keys"
    and q: "mockHotelAPI destination checkIn checkOut guests roomType rnd = Inr q"
  shows "\<exists>h m p. hotelFor roomType = Val h \<and> getDestinationMultiplier destination = Val m \<and>
           pricePerNight q = Num (of_int p) \<and>
           round_half_up (0.85 * basePrice h * m) \<le> p \<and>
           p \<le> round_half_up (1.15 * basePrice h * m) \<and> 0 < p"
proof -
  from mockHotelAPI_Inr[OF q] obtain h where h: "hotelFor roomType = Val h"
    "h \<in> snd ` set hotelTypes"
    "pricePerNight q =
             math_round
               (js_times
                  (js_times (Num (fl (basePrice h)))
                     (js_plus (Num 1) (Num (hotelVariation (rnd 0)))))
                  (to_number (getDestinationMultiplier destination)))"
    by blast
  from getDestinationMultiplier_cases[of destination] d obtain m where
    m: "getDestinationMultiplier destination = Val m" "1 / 2 \<le> m" by blast
  let ?b = "basePrice h" and ?v = "hotelVariation (rnd 0)"
  let ?P = "\<lambda>v. round_half_up (fl (fl (fl ?b * fl (1 + v)) * fl m))"
  have b60: "60 \<le> ?b" using hotel_tiers(1)[OF h(2)] .
  have bs: "?b \<in> set [60, 120, 280]" using h(2) hotel_tier_prices by auto
  have ms: "m \<in> set [1.4, 1.3, 1.2, 1.1, 0.6, 0.5, 0.7, 1]"
    using m(1) by (rule getDestinationMultiplier_values)
  from hotel_band_ends ms bs
  have ends: "round_half_up (0.85 * ?b * m) \<le> ?P (- fl 0.15)"
    "?P (fl 0.15) \<le> round_half_up (1.15 * ?b * m)"
    by blast+
  have fb: "0 \<le> fl ?b" using b60 by (intro fl_nonneg) simp
  have fm: "0 \<le> fl m" using m(2) by (intro fl_nonneg) simp
  note v = hotelVariation_range[OF r]
  have p: "pricePerNight q = Num (of_int (?P ?v))" using h(3) m(1) by simp
  have "?P (- fl 0.15) \<le> ?P ?v" using fb fm v(1) by (rule price_mono)
  with ends(1) have lo: "round_half_up (0.85 * ?b * m) \<le> ?P ?v" by linarith
  have "?P ?v \<le> ?P (fl 0.15)" using fb fm v(2) by (rule price_mono)
  with ends(2) have hi: "?P ?v \<le> round_half_up (1.15 * ?b * m)" by linarith
  have "0 < ?P ?v"
  proof -
    have "60 * (1 / 2) \<le> ?b * m"
      using b60 m(2) by (intro mult_mono) auto
    then have "1 / 2 \<le> 0.85 * ?b * m"
      by simp
    then have "0 < round_half_up (0.85 * ?b * m)"
      by (rule round_half_up_pos)
    with lo show ?thesis by linarith
  qed
  with p lo hi h(1) m(1) show ?thesis by blast
qed

text \<open>
  Claim C6, as the code has it. The variation band of a hotel price is around the tier's base
  rate times the destination multiplier, not around the base rate alone. For every destination
  and room type that do not name a member of \<^verbatim>\<open>Object.prototype\<close>, two calls with
  identical inputs and any draws in \<open>[0, 1)\<close> both return a quote, and each price, computed
  in doubles, lies between \<open>round (0.85 * basePrice * m)\<close> and \<open>round (1.15 * basePrice * m)\<close>
  of the exact products, where \<open>m\<close> is the destination multiplier (\<open>1.0\<close> for a destination
  that is not in the table).
\<close>

theorem mockHotelAPI_price_band:
  assumes "0 \<le> rnd 0" "rnd 0 < 1" "0 \<le> rnd' 0" "rnd' 0 < 1"
    and "destination \<notin> set object_prototype_keys"
    and "roomType \<notin> set object_prototype_keys"
  shows "\<exists>q q' h m p p'.
           mockHotelAPI destination checkIn checkOut guests roomType rnd = Inr q \<and>
           mockHotelAPI destination checkIn checkOut guests roomType rnd' = Inr q' \<and>
           hotelFor roomType = Val h \<and> getDestinationMultiplier destination = Val m \<and>
           pricePerNight q = Num (of_int p) \<and> pricePerNight q' = Num (of_int p') \<and>
           round_half_up (0.85 * basePrice h * m) \<le> p \<and>
           p \<le> round_half_up (1.15 * basePrice h * m) \<and>
           round_half_up (0.85 * basePrice h * m) \<le> p' \<and>
           p' \<le> round_half_up (1.15 * basePrice h * m)"
proof -
  from mockHotelAPI_returns[OF assms(6)] obtain q q' where
    q: "mockHotelAPI destination checkIn checkOut guests roomType rnd = Inr q" and
    q': "mockHotelAPI destination checkIn checkOut guests roomType rnd' = Inr q'"
    by blast
  from hotel_price_in_band[OF assms(1,2,5) q] obtain h m p where
    p: "hotelFor roomType = Val h" "getDestinationMultiplier destination = Val m"
       "pricePerNight q = Num (of_int p)"
       "round_half_up (0.85 * basePrice h * m) \<le> p"
       "p \<le> round_half_up (1.15 * basePrice h * m)"
    by blast
  from hotel_price_in_band[OF assms(3,4,5) q'] p(1,2) obtain p' where
    p': "pricePerNight q' = Num (of_int p')"
       "round_half_up (0.85 * basePrice h * m) \<le> p'"
       "p' \<le> round_half_up (1.15 * basePrice h * m)"
    by auto
  from q q' p p' show ?thesis by blast
qed

theorem mockHotelAPI_price_band_witness:
  "map_sum id pricePerNight
     (mockHotelAPI ''Tokyo'' ''2025-07-01'' ''2025-07-05'' 2 ''standard'' (const_draws (1 / 2))) =
     Inr (Num 168) \<and>
   map_sum id pricePerNight
     (mockHotelAPI ''Tokyo'' ''2025-07-01'' ''2025-07-05'' 2 ''standard'' (const_draws 0)) =
     Inr (Num 143) \<and>
   round_half_up (0.85 * 120 * 1.4) = 143 \<and> round_half_up (1.15 * 120 * 1.4) = 193 \<and>
   (\<exists>q q' h m p p'.
      mockHotelAPI ''Tokyo'' ''2025-07-01'' ''2025-07-05'' 2 ''standard'' (const_draws (1 / 2)) =
        Inr q \<and>
      mockHotelAPI ''Tokyo'' ''2025-07-01'' ''2025-07-05'' 2 ''standard'' (const_draws 0) = Inr q' \<and>
      hotelFor ''standard'' = Val h \<and> getDestinationMultiplier ''Tokyo'' = Val m \<and>
      pricePerNight q = Num (of_int p) \<and> pricePerNight q' = Num (of_int p') \<and>
      round_half_up (0.85 * basePrice h * m) \<le> p \<and>
      p \<le> round_half_up (1.15 * basePrice h * m) \<and>
      round_half_up (0.85 * basePrice h * m) \<le> p' \<and>
      p' \<le> round_half_up (1.15 * basePrice h * m))"
proof -
  have a: "map_sum id pricePerNight
     (mockHotelAPI ''Tokyo'' ''2025-07-01'' ''2025-07-05'' 2 ''standard'' (const_draws (1 / 2))) =
     Inr (Num 168)"
    by (simp add: mockHotelAPI_def hotelFor_def js_get_def hotelTypes_def
        getDestinationMultiplier_def multipliers_def const_draws_def round_half_up_def
        hotelVariation_def fl_eval)
  have b: "map_sum id pricePerNight
     (mockHotelAPI ''Tokyo'' ''2025-07-01'' ''2025-07-05'' 2 ''standard'' (const_draws 0)) =
     Inr (Num 143)"
    by (simp add: mockHotelAPI_def hotelFor_def js_get_def hotelTypes_def
        getDestinationMultiplier_def multipliers_def const_draws_def round_half_up_def
        hotelVariation_def fl_eval)
  have c: "round_half_up (0.85 * 120 * 1.4) = 143" "round_half_up (1.15 * 120 * 1.4) = 193"
    by (simp_all add: round_half_up_def)
  have k: "''Tokyo'' \<notin> set object_prototype_keys" "''standard'' \<notin> set object_prototype_keys"
    by (simp_all add: object_prototype_keys_def)
  have r: "0 \<le> const_draws (1 / 2) 0" "const_draws (1 / 2) 0 < 1"
    "0 \<le> const_draws 0 0" "const_draws 0 0 < 1"
    by (simp_all add: const_draws_def)
  from mockHotelAPI_price_band [where rnd = "const_draws (1 / 2)" and rnd' = "const_draws 0"
      and destination = "''Tokyo''" and roomType = "''standard''"
      and checkIn = "''2025-07-01''" and checkOut = "''2025-07-05''" and guests = 2, OF r k]
    a b c
  show ?thesis by blast
qed

text \<open>
  Claim C6 as stated fails for Tokyo: with the draw \<open>1 / 2\<close> the variation is \<open>0\<close> and
  the standard room costs \<open>round (120 * 1.4) = 168\<close>, above \<open>round (1.15 * 120) = 138\<close>.
\<close>

theorem mockHotelAPI_tokyo_outside_base_band:
  "map_sum id pricePerNight
     (mockHotelAPI ''Tokyo'' ''2025-07-01'' ''2025-07-05'' 2 ''standard'' (const_draws (1 / 2))) =
     Inr (Num 168) \<and>
   map_jsval basePrice (hotelFor ''standard'') = Val 120 \<and>
   round_half_up (1.15 * 120) = 138 \<and>
   \<not> (168 \<le> round_half_up (1.15 * 120))"
  by (simp add: mockHotelAPI_def hotelFor_def js_get_def hotelTypes_def
      getDestinationMultiplier_def multipliers_def const_draws_def round_half_up_def
      hotelVariation_def fl_eval)

text \<open>
  The destination reaches the lookup as it was given. For every destination that is neither,
  character for character, one of the nine capitalized keys nor the name of a member of
  \<^verbatim>\<open>Object.prototype\<close>, the multiplier is exactly \<open>1.0\<close>, and every hotel quote returned
  has the price \<open>round (basePrice * (1 + variation) * 1.0)\<close>, each operation rounded to a
  double.
\<close>

lemma getDestinationMultiplier_unlisted_is_one:
  assumes "destination \<notin> set [''Tokyo'', ''Paris'', ''London'', ''Dubai'', ''New York'',
                                ''Mumbai'', ''Delhi'', ''Bangkok'', ''Singapore'']"
    and "destination \<notin> set object_prototype_keys"
  shows "getDestinationMultiplier destination = Val 1 \<and>
         (\<forall>q. mockHotelAPI destination checkIn checkOut guests roomType rnd = Inr q \<longrightarrow>
            (\<exists>h. hotelFor roomType = Val h \<and>
                 pricePerNight q =
                   Num (of_int (round_half_up
                     (fl (fl (fl (basePrice h) * fl (1 + hotelVariation (rnd 0))) * 1))))))"
proof -
  have "destination \<notin> set (map fst multipliers)"
    using assms(1) by (simp add: multipliers_def)
  then have one: "getDestinationMultiplier destination = Val 1"
    using assms(2) by (rule getDestinationMultiplier_unlisted)
  have "\<exists>h. hotelFor roomType = Val h \<and>
                 pricePerNight q =
                   Num (of_int (round_half_up
                     (fl (fl (fl (basePrice h) * fl (1 + hotelVariation (rnd 0))) * 1))))"
    if "mockHotelAPI destination checkIn checkOut guests roomType rnd = Inr q" for q
    using mockHotelAPI_Inr[OF that] one by (auto simp: fl_literals)
  with one show ?thesis by blast
qed

lemma getDestinationMultiplier_unlisted_is_one_example:
  "''delhi'' \<notin> set [''Tokyo'', ''Paris'', ''London'', ''Dubai'', ''New York'',
                                ''Mumbai'', ''Delhi'', ''Bangkok'', ''Singapore''] \<and>
   ''delhi'' \<notin> set object_prototype_keys \<and>
   getDestinationMultiplier ''delhi'' = Val 1 \<and>
   getDestinationMultiplier ''Delhi'' = Val 0.5 \<and>
   map_sum id pricePerNight
     (mockHotelAPI ''delhi'' ''2025-07-01'' ''2025-07-05'' 2 ''standard'' (const_draws (1 / 2))) =
     Inr (Num 120)"
proof -
  have a: "''delhi'' \<notin> set [''Tokyo'', ''Paris'', ''London'', ''Dubai'', ''New York'',
                                ''Mumbai'', ''Delhi'', ''Bangkok'', ''Singapore'']"
    by simp
  have b: "''delhi'' \<notin> set object_prototype_keys"
    by (simp add: object_prototype_keys_def)
  have c: "mockHotelAPI ''delhi'' ''2025-07-01'' ''2025-07-05'' 2 ''standard'' (const_draws (1 / 2)) =
    Inr \<lparr>pricePerNight = Num 120, hotelName = ''Comfort Hotel'', rating = 4,
        amenities = [''WiFi'', ''Pool'', ''Gym'', ''Restaurant''],
        hotel_availability = True, cancellation = True, breakfast = False,
        wifi = True, location = ''City Center''\<rparr>"
    by (simp add: mockHotelAPI_def hotelFor_def js_get_def hotelTypes_def
      getDestinationMultiplier_def multipliers_def const_draws_def round_half_up_def
      hotelVariation_def object_prototype_keys_def fl_eval)
  have d: "getDestinationMultiplier ''Delhi'' = Val 0.5"
    by (simp add: getDestinationMultiplier_def js_get_def multipliers_def)
  from getDestinationMultiplier_unlisted_is_one [OF a b] c d show ?thesis
    by (simp add: object_prototype_keys_def)
qed

text \<open>
  Claim C9 says that every destination that is not one of the capitalized keys gets the
  multiplier \<open>1.0\<close>. The code misses the names that an object literal inherits:
  \<^verbatim>\<open>'constructor'\<close> is not one of the keys, \<^verbatim>\<open>multipliers['constructor']\<close> is the inherited
  function \<^verbatim>\<open>Object\<close>, \<^verbatim>\<open>||\<close> keeps it instead of \<open>1.0\<close>, and the product, hence the
  price per night, is \<^verbatim>\<open>NaN\<close>.
\<close>

theorem getDestinationMultiplier_constructor:
  "''constructor'' \<notin> set [''Tokyo'', ''Paris'', ''London'', ''Dubai'', ''New York'',
                                ''Mumbai'', ''Delhi'', ''Bangkok'', ''Singapore''] \<and>
   getDestinationMultiplier ''constructor'' = Inherited \<and>
   getDestinationMultiplier ''constructor'' \<noteq> Val 1 \<and>
   map_sum id pricePerNight
     (mockHotelAPI ''constructor'' ''2025-07-01'' ''2025-07-05'' 2 ''standard''
        (const_draws (1 / 2))) = Inr NaN"
  by (simp add: mockHotelAPI_def hotelFor_def js_get_def hotelTypes_def
      getDestinationMultiplier_def multipliers_def const_draws_def object_prototype_keys_def
      hotelVariation_def fl_eval)

subsection \<open>Activities\<close>

lemma activities_length: "\<forall>(k, acts) \<in> set activities. length acts = 4"
  by (simp add: activities_def)

lemma availableActivities_cases:
  fixes interests :: "string list"
  defines "activityType \<equiv> (case interests of [] \<Rightarrow> ''default'' | i # _ \<Rightarrow> i)"
  shows "obj_or (js_get activities activityType) (js_get activities ''default'') = Inherited \<and>
           activityType \<in> set object_prototype_keys \<or>
         (\<exists>acts. obj_or (js_get activities activityType) (js_get activities ''default'') = Val acts \<and>
            length acts = 4 \<and> activityType \<notin> set object_prototype_keys)"
proof (cases "activityType \<in> set object_prototype_keys")
  case True
  then have "activityType \<notin> set (map fst activities)"
    by (auto simp: activities_def object_prototype_keys_def)
  with True show ?thesis by (simp add: js_get_inherited)
next
  case False
  have d: "js_get activities ''default'' =
    Val [''City Tour'', ''Sightseeing'', ''Local Experience'', ''Photography Walk'']"
    by (simp add: js_get_def activities_def)
  show ?thesis
  proof (cases "map_of activities activityType")
    case None
    with False d show ?thesis by (simp add: js_get_own)
  next
    case (Some acts)
    then have "(activityType, acts) \<in> set activities" by (rule map_of_SomeD)
    with activities_length have "length acts = 4" by blast
    with Some False show ?thesis by (simp add: js_get_own)
  qed
qed

lemma mockActivityAPI_Inr:
  assumes "mockActivityAPI destination duration travelers interests rnd = Inr q"
  shows "\<exists>acts. length acts = 4 \<and>
           averagePrice q = math_round (js_plus (Num 25) (js_times (Num (rnd 0)) (Num 75))) \<and>
           recommendedActivities q = slice0 acts (min duration 4) \<and>
           totalActivities q = min (duration * 2) 10 \<and>
           groupDiscount q = (travelers > 4)"
  using assms availableActivities_cases[of interests]
  by (auto simp: mockActivityAPI_def Let_def split: jsval.splits)

lemma mockActivityAPI_returns:
  assumes "interests = [] \<or> hd interests \<notin> set object_prototype_keys"
  shows "\<exists>q. mockActivityAPI destination duration travelers interests rnd = Inr q"
proof -
  have "(case interests of [] \<Rightarrow> ''default'' | i # _ \<Rightarrow> i) \<notin> set object_prototype_keys"
    using assms by (auto simp: object_prototype_keys_def split: list.splits)
  then show ?thesis
    using availableActivities_cases[of interests]
    by (auto simp: mockActivityAPI_def Let_def split: jsval.splits)
qed

lemma length_slice0:
  "int (length (slice0 xs e)) =
     (if e < 0 then max (int (length xs) + e) 0 else min e (int (length xs)))"
  by (auto simp: slice0_def Let_def)

text \<open>
  Claim C10. For a duration that is a non-negative integer and any travelers count, every
  activity quote returned has \<open>totalActivities = min (2 * duration) 10\<close>, at most 10,
  exactly \<open>min duration 4\<close> recommended activities, and the group discount exactly when
  there are more than 4 travelers. A quote is returned whenever the first interest, if there
  is one, is not the name of a member of \<^verbatim>\<open>Object.prototype\<close>.
\<close>

theorem mockActivityAPI_counts:
  assumes "0 \<le> duration"
  shows "(interests = [] \<or> hd interests \<notin> set object_prototype_keys \<longrightarrow>
            (\<exists>q. mockActivityAPI destination duration travelers interests rnd = Inr q)) \<and>
         (\<forall>q. mockActivityAPI destination duration travelers interests rnd = Inr q \<longrightarrow>
            totalActivities q = min (2 * duration) 10 \<and> totalActivities q \<le> 10 \<and>
            int (length (recommendedActivities q)) = min duration 4 \<and>
            (groupDiscount q \<longleftrightarrow> travelers > 4))"
proof -
  have "totalActivities q = min (2 * duration) 10 \<and> totalActivities q \<le> 10 \<and>
            int (length (recommendedActivities q)) = min duration 4 \<and>
            (groupDiscount q \<longleftrightarrow> travelers > 4)"
    if "mockActivityAPI destination duration travelers interests rnd = Inr q" for q
  proof -
    from mockActivityAPI_Inr[OF that] obtain acts where
      a: "length acts = 4" "recommendedActivities q = slice0 acts (min duration 4)"
         "totalActivities q = min (duration * 2) 10" "groupDiscount q = (travelers > 4)"
      by blast
    have "int (length (recommendedActivities q)) = min duration 4"
      using a(1,2) assms by (simp add: length_slice0)
    with a(3,4) show ?thesis by (simp add: mult.commute)
  qed
  with mockActivityAPI_returns show ?thesis by blast
qed

theorem mockActivityAPI_counts_witness:
  "(0::int) \<le> 3 \<and>
   mockActivityAPI ''Paris'' 3 5 [''food''] (const_draws (1 / 2)) =
     Inr \<lparr>averagePrice = Num 63,
          recommendedActivities = [''Food Tour'', ''Cooking Class'', ''Wine Tasting''],
          totalActivities = 6, bookingRequired = True, groupDiscount = True,
          cancellationPolicy = ''24 hours free cancellation''\<rparr> \<and>
   (6::int) = min (2 * 3) 10 \<and> int (length [''Food Tour'', ''Cooking Class'', ''Wine Tasting'']) = min 3 4"
proof -
  have q: "mockActivityAPI ''Paris'' 3 5 [''food''] (const_draws (1 / 2)) =
     Inr \<lparr>averagePrice = Num 63,
          recommendedActivities = [''Food Tour'', ''Cooking Class'', ''Wine Tasting''],
          totalActivities = 6, bookingRequired = True, groupDiscount = True,
          cancellationPolicy = ''24 hours free cancellation''\<rparr>"
    by (simp add: mockActivityAPI_def js_get_def activities_def slice0_def const_draws_def
        round_half_up_def fl_eval)
  from mockActivityAPI_counts [of 3 "[''food'']" "''Paris''" 5 "const_draws (1 / 2)"] q
  show ?thesis by simp
qed

subsection \<open>Flights\<close>

lemma routes_prices: "\<forall>(a, tbl) \<in> set routes. \<forall>(d, p) \<in> set tbl. 50 \<le> p \<and> p \<le> 900"
  by (simp add: routes_def)

lemma routeEntry_bounds: "routeEntry a d = Some p \<Longrightarrow> 50 \<le> p \<and> p \<le> 900"
  using routes_prices
  by (fastforce simp: routeEntry_def split: option.splits dest!: map_of_SomeD)

lemma flightBasePrice_own:
  assumes "lo \<notin> set object_prototype_keys" "ld \<notin> set object_prototype_keys"
  shows "flightBasePrice b lo ld = (case routeEntry lo ld of Some p \<Rightarrow> Val p | None \<Rightarrow> Val 500)"
proof (cases "routeEntry lo ld")
  case None
  then show ?thesis using assms
    by (simp add: flightBasePrice_def routeLookup_def routeEntry_def js_get_own split: option.splits)
next
  case (Some p)
  then have "p \<noteq> 0" using routeEntry_bounds[OF Some] by simp
  with Some show ?thesis using assms
    by (auto simp: flightBasePrice_def routeLookup_def routeEntry_def js_get_own split: option.splits)
qed


lemma routes_mirrored:
  "\<forall>(a, tbl) \<in> set routes. \<forall>(d, p) \<in> set tbl.
     (case routeEntry d a of Some q \<Rightarrow> q = p | None \<Rightarrow> True)"
  by (simp add: routes_def routeEntry_def)

lemma routeEntry_mirrored:
  assumes "routeEntry a d = Some p" "routeEntry d a = Some q"
  shows "p = q"
proof -
  from assms(1) obtain tbl where "(a, tbl) \<in> set routes" "(d, p) \<in> set tbl"
    by (auto simp: routeEntry_def split: option.splits dest!: map_of_SomeD)
  with routes_mirrored have "case routeEntry d a of Some q \<Rightarrow> q = p | None \<Rightarrow> True"
    by blast
  with assms(2) show ?thesis by simp
qed



lemma mockFlightAPI_price:
  "price (mockFlightAPI builtin origin destination departMonth returnDate passengers rnd) =
     math_round
       (js_times
          (js_times
             (to_number (flightBasePrice builtin (toLowerCase (trim origin))
                           (toLowerCase (trim destination))))
             (js_plus (Num 1) (Num (flightVariation (rnd 0)))))
          (Num (fl (getSeasonalMultiplier departMonth))))"
  by (simp add: mockFlightAPI_def Let_def)









subsection \<open>The invariant of the quotes\<close>




subsection \<open>Flight details\<close>

lemma dash_not_inherited: "CHR ''-'' \<in> set k \<Longrightarrow> k \<notin> set object_prototype_keys"
  by (auto simp: object_prototype_keys_def)

lemma num_or_default_numeric:
  assumes "a \<noteq> Inherited" "b \<noteq> Inherited"
  shows "\<exists>x. num_or (num_or a b) (Val d) = Val x"
  using assms by (cases a; cases b) auto

lemma baseDuration_numeric: "\<exists>x. baseDuration origin destination isDomestic = Val x"
proof -
  let ?k = "toLowerCase origin @ ''-'' @ toLowerCase destination"
  let ?r = "toLowerCase destination @ ''-'' @ toLowerCase origin"
  have k: "?k \<notin> set object_prototype_keys" and r: "?r \<notin> set object_prototype_keys"
    by (rule dash_not_inherited, simp)+
  have n: "js_get tbl ?k \<noteq> Inherited" "js_get tbl ?r \<noteq> Inherited"
    for tbl :: "(string \<times> real) list"
    using k r by (simp_all add: js_get_own split: option.splits)
  show ?thesis
  proof (cases isDomestic)
    case True
    with num_or_default_numeric[OF n, of domesticDurations domesticDurations "2.0"]
    show ?thesis by (simp add: baseDuration_def Let_def)
  next
    case False
    with num_or_default_numeric[OF n, of internationalDurations internationalDurations "8.0"]
    show ?thesis by (simp add: baseDuration_def Let_def)
  qed
qed

lemma resolvedDuration_numeric: "\<exists>d. resolvedDuration origin destination isDomestic r = Num d"
  using baseDuration_numeric[of origin destination isDomestic]
  by (auto simp: resolvedDuration_def)

text \<open>
  Claim C4. For an international route the resolved duration (the base duration plus the
  variation) is always a number, and when it is at least 10 hours the stop count that
  \<open>getFlightDetails\<close> returns is 1 or 2, whatever the draws.
\<close>

theorem long_haul_stops:
  "\<exists>d. resolvedDuration origin destination False (rnd 0) = Num d \<and>
       (10 \<le> d \<longrightarrow> stops_count (getFlightDetails origin destination False rnd) \<in> {1, 2})"
proof -
  from resolvedDuration_numeric obtain d where
    d: "resolvedDuration origin destination False (rnd 0) = Num d" by blast
  have "stops_count (getFlightDetails origin destination False rnd) \<in> {1, 2}" if "10 \<le> d"
    using that d by (simp add: getFlightDetails_def stopsFor_def)
  with d show ?thesis by blast
qed

theorem long_haul_stops_witness:
  "resolvedDuration ''mumbai'' ''new york'' False (const_draws (1 / 2) 0) = Num 15 \<and>
   (10::real) \<le> 15 \<and>
   stops_count (getFlightDetails ''mumbai'' ''new york'' False (const_draws (1 / 2))) = 1 \<and>
   stops_count (getFlightDetails ''mumbai'' ''new york'' False (const_draws (1 / 2))) \<in> {1, 2}"
proof -
  have d: "resolvedDuration ''mumbai'' ''new york'' False (const_draws (1 / 2) 0) = Num 15"
    by (simp add: resolvedDuration_def baseDuration_def js_get_def internationalDurations_def
        toLowerCase_def lower_char_def upper_chars_def lower_chars_def const_draws_def fl_eval)
  have s: "stops_count (getFlightDetails ''mumbai'' ''new york'' False (const_draws (1 / 2))) = 1"
    using d by (simp add: getFlightDetails_def stopsFor_def const_draws_def fl_eval)
  from long_haul_stops [of "''mumbai''" "''new york''" "const_draws (1 / 2)"] d s
  show ?thesis by simp
qed

text \<open>
  Claim C3 says that an international flight is the more likely to have a stop the longer
  it is. In the code the draws \<open>r\<close> of \<open>[0, 1)\<close> that give at least one stop are those up
  to the double of \<open>0.7\<close>, which is within \<open>1 / 2 ^ 53\<close> of \<open>0.7\<close>, when the duration is
  under 5 hours (Mumbai to Dubai, 3.5 hours: probability 0.7), those of \<open>(0.5, 1)\<close> when it
  is between 5 and 10 hours (Mumbai to London, 9 hours: probability 0.5) and all of them
  from 10 hours on (Mumbai to New York, 15 hours): the probability of a stop falls at the
  5 hour threshold. The draw of the variation is \<open>1 / 2\<close> here, which leaves the base
  duration as it is.
\<close>

theorem short_haul_stops_more_often_than_medium:
  "resolvedDuration ''mumbai'' ''dubai'' False (1 / 2) = Num 3.5 \<and>
   resolvedDuration ''mumbai'' ''london'' False (1 / 2) = Num 9 \<and>
   resolvedDuration ''mumbai'' ''new york'' False (1 / 2) = Num 15 \<and>
   {r. 0 \<le> r \<and> r < 1 \<and>
       1 \<le> stops_count (getFlightDetails ''mumbai'' ''dubai'' False
                          (\<lambda>i. if i = 0 then 1 / 2 else r))} = {0 .. fl (7 / 10)} \<and>
   {r. 0 \<le> r \<and> r < 1 \<and>
       1 \<le> stops_count (getFlightDetails ''mumbai'' ''london'' False
                          (\<lambda>i. if i = 0 then 1 / 2 else r))} = {1 / 2 <..< 1} \<and>
   {r. 0 \<le> r \<and> r < 1 \<and>
       1 \<le> stops_count (getFlightDetails ''mumbai'' ''new york'' False
                          (\<lambda>i. if i = 0 then 1 / 2 else r))} = {0 ..< 1} \<and>
   fl (7 / 10) = 3152519739159347 / 4503599627370496 \<and>
   \<bar>fl (7 / 10) - 7 / 10\<bar> < 1 / 2 ^ 53"
proof -
  have a: "resolvedDuration ''mumbai'' ''dubai'' False (1 / 2) = Num 3.5"
    by (simp add: resolvedDuration_def baseDuration_def js_get_def internationalDurations_def
        toLowerCase_def lower_char_def upper_chars_def lower_chars_def fl_eval)
  have b: "resolvedDuration ''mumbai'' ''london'' False (1 / 2) = Num 9"
    by (simp add: resolvedDuration_def baseDuration_def js_get_def internationalDurations_def
        toLowerCase_def lower_char_def upper_chars_def lower_chars_def fl_eval)
  have c: "resolvedDuration ''mumbai'' ''new york'' False (1 / 2) = Num 15"
    by (simp add: resolvedDuration_def baseDuration_def js_get_def internationalDurations_def
        toLowerCase_def lower_char_def upper_chars_def lower_chars_def fl_eval)
  have l: "fl (7 / 10) = 3152519739159347 / 4503599627370496"
    by (simp add: fl_literals)
  have d: "{r. 0 \<le> r \<and> r < 1 \<and>
       1 \<le> stops_count (getFlightDetails ''mumbai'' ''dubai'' False
                          (\<lambda>i. if i = 0 then 1 / 2 else r))} = {0 .. fl (7 / 10)}"
    by (auto simp: getFlightDetails_def a stopsFor_def fl_literals)
  have e: "{r. 0 \<le> r \<and> r < 1 \<and>
       1 \<le> stops_count (getFlightDetails ''mumbai'' ''london'' False
                          (\<lambda>i. if i = 0 then 1 / 2 else r))} = {1 / 2 <..< 1}"
    by (auto simp: getFlightDetails_def b stopsFor_def fl_literals)
  have f: "{r. 0 \<le> r \<and> r < 1 \<and>
       1 \<le> stops_count (getFlightDetails ''mumbai'' ''new york'' False
                          (\<lambda>i. if i = 0 then 1 / 2 else r))} = {0 ..< 1}"
    by (auto simp: getFlightDetails_def c stopsFor_def fl_literals)
  have m: "\<bar>fl (7 / 10) - 7 / 10\<bar> < 1 / 2 ^ 53"
    by (simp add: fl_literals)
  from a b c d e f l m show ?thesis by blast
qed

subsection \<open>The price formulas\<close>










subsection \<open>The directions of a route\<close>

text \<open>
  Claim C7, as the code has it. For normalized city names that do not name a member of
  \<^verbatim>\<open>Object.prototype\<close>, the base price is the entry of the table for the forward key when
  there is one and 500 otherwise; the reverse key is never looked up. Where the table has
  an entry for both directions of a pair, or for neither, the base price is the same in
  both directions.
\<close>

theorem flightBasePrice_directions:
  assumes "lowerOrigin \<notin> set object_prototype_keys"
    and "lowerDestination \<notin> set object_prototype_keys"
  shows "flightBasePrice builtin lowerOrigin lowerDestination =
           (case routeEntry lowerOrigin lowerDestination of Some p \<Rightarrow> Val p | None \<Rightarrow> Val 500) \<and>
         ((routeEntry lowerOrigin lowerDestination = None \<longleftrightarrow>
           routeEntry lowerDestination lowerOrigin = None) \<longrightarrow>
            flightBasePrice builtin lowerOrigin lowerDestination =
            flightBasePrice builtin lowerDestination lowerOrigin)"
proof -
  note f = flightBasePrice_own[OF assms, of builtin]
  note g = flightBasePrice_own[OF assms(2,1), of builtin]
  have "flightBasePrice builtin lowerOrigin lowerDestination =
            flightBasePrice builtin lowerDestination lowerOrigin"
    if "routeEntry lowerOrigin lowerDestination = None \<longleftrightarrow>
           routeEntry lowerDestination lowerOrigin = None"
  proof (cases "routeEntry lowerOrigin lowerDestination")
    case None
    with that f g show ?thesis by simp
  next
    case (Some p)
    with that obtain q where q: "routeEntry lowerDestination lowerOrigin = Some q" by auto
    from routeEntry_mirrored[OF Some q] Some q f g show ?thesis by simp
  qed
  with f show ?thesis by blast
qed

theorem flightBasePrice_directions_witness:
  "''mumbai'' \<notin> set object_prototype_keys \<and> ''delhi'' \<notin> set object_prototype_keys \<and>
   routeEntry ''mumbai'' ''delhi'' = Some 80 \<and> routeEntry ''delhi'' ''mumbai'' = Some 80 \<and>
   flightBasePrice no_builtin ''mumbai'' ''delhi'' = Val 80 \<and>
   flightBasePrice no_builtin ''delhi'' ''mumbai'' = Val 80"
proof -
  have k: "''mumbai'' \<notin> set object_prototype_keys" "''delhi'' \<notin> set object_prototype_keys"
    by (simp_all add: object_prototype_keys_def)
  have e: "routeEntry ''mumbai'' ''delhi'' = Some 80" "routeEntry ''delhi'' ''mumbai'' = Some 80"
    by (simp_all add: routeEntry_def routes_def)
  from flightBasePrice_directions [OF k, of no_builtin] e
  have "flightBasePrice no_builtin ''mumbai'' ''delhi'' = Val 80"
    and "flightBasePrice no_builtin ''mumbai'' ''delhi'' =
         flightBasePrice no_builtin ''delhi'' ''mumbai''"
    by auto
  then have "flightBasePrice no_builtin ''mumbai'' ''delhi'' = Val 80"
    and "flightBasePrice no_builtin ''delhi'' ''mumbai'' = Val 80"
    by simp_all
  with e k show ?thesis by simp
qed

text \<open>
  Claim C7 as stated fails for Kolkata and Dubai: the table has \<^verbatim>\<open>routes['kolkata']['dubai']\<close>
  (250) and no \<^verbatim>\<open>routes['dubai']['kolkata']\<close>, and the lookup has no reverse fallback, so
  the base price is 250 one way and the default 500 the other way.
\<close>

theorem flightBasePrice_kolkata_dubai:
  "flightBasePrice no_builtin ''kolkata'' ''dubai'' = Val 250 \<and>
   flightBasePrice no_builtin ''dubai'' ''kolkata'' = Val 500 \<and>
   routeEntry ''kolkata'' ''dubai'' = Some 250 \<and>
   routeEntry ''dubai'' ''kolkata'' = None \<and>
   price (mockFlightAPI no_builtin ''Kolkata'' ''Dubai'' (Num 6) ''2025-07-20'' 1 (const_draws (1 / 2))) =
     Num 325 \<and>
   price (mockFlightAPI no_builtin ''Dubai'' ''Kolkata'' (Num 6) ''2025-07-20'' 1 (const_draws (1 / 2))) =
     Num 650"
proof -
  have n: "toLowerCase (trim ''Kolkata'') = ''kolkata''" "toLowerCase (trim ''Dubai'') = ''dubai''"
    by (simp_all add: toLowerCase_def trim_def is_space_def lower_char_def upper_chars_def
        lower_chars_def)
  have b: "flightBasePrice no_builtin ''kolkata'' ''dubai'' = Val 250"
    "flightBasePrice no_builtin ''dubai'' ''kolkata'' = Val 500"
    by (simp_all add: flightBasePrice_def routeLookup_def js_get_def routes_def
        object_prototype_keys_def)
  have e: "routeEntry ''kolkata'' ''dubai'' = Some 250" "routeEntry ''dubai'' ''kolkata'' = None"
    by (simp_all add: routeEntry_def routes_def)
  have s: "getSeasonalMultiplier (Num 6) = 1.3"
    by (simp add: getSeasonalMultiplier_def peakMonths_def)
  have v: "flightVariation (1 / 2) = 0" by (simp add: flightVariation_def fl_eval)
  have p: "price (mockFlightAPI no_builtin ''Kolkata'' ''Dubai'' (Num 6) ''2025-07-20'' 1
             (const_draws (1 / 2))) = Num 325"
    "price (mockFlightAPI no_builtin ''Dubai'' ''Kolkata'' (Num 6) ''2025-07-20'' 1
             (const_draws (1 / 2))) = Num 650"
    by (simp_all add: mockFlightAPI_price n b s v const_draws_def round_half_up_def fl_eval)
  from b e p show ?thesis by simp
qed

end
